theory Spec2Isabelle
  imports Main "HOL-Library.Sublist"
begin

section \<open>Values shared by the modules\<close>

text \<open>
  A parsed JSON value, as \<open>res.json()\<close> hands it to the code. An object is the list of
  its own properties in enumeration order; the keys of an object are distinct. A number
  is kept as an integer: the code only asks whether a value is a number.
\<close>

datatype json =
    JNull
  | JBool bool
  | JNum int
  | JStr string
  | JArr "json list"
  | JObj "(string \<times> json) list"

text \<open>
  A JavaScript object used as a dictionary (\<open>Record<string, T>\<close>) is an association list
  in insertion order. \<open>obj_set\<close> is the assignment \<open>o[k] = v\<close> (an existing key keeps
  its place, a new key goes last), \<open>obj_delete\<close> is \<open>delete o[k]\<close>, \<open>obj_keys\<close> is
  \<open>Object.keys(o)\<close>. The special place that JavaScript gives to integer-like keys in the
  enumeration order is not modelled.
\<close>

type_synonym 'v obj = "(string \<times> 'v) list"

fun obj_set :: "'v obj \<Rightarrow> string \<Rightarrow> 'v \<Rightarrow> 'v obj" where
  "obj_set [] k v = [(k, v)]"
| "obj_set ((k', v') # rest) k v =
     (if k' = k then (k, v) # rest else (k', v') # obj_set rest k v)"

definition obj_delete :: "'v obj \<Rightarrow> string \<Rightarrow> 'v obj" where
  "obj_delete ob k = filter (\<lambda>kv. fst kv \<noteq> k) ob"

definition obj_keys :: "'v obj \<Rightarrow> string list" where
  "obj_keys ob = map fst ob"

definition obj_get :: "'v obj \<Rightarrow> string \<Rightarrow> 'v option" where
  "obj_get ob k = map_of ob k"

section \<open>The configuration document and the skill install ledger\<close>

text \<open>
  Modelled from the spec: \<open>SkillInstallRecord\<close> is declared in \<open>config/types.skills\<close>,
  which is not among the sources; its fields are those of the spec's skill record and of
  the calls in the sources: \<open>source\<close> (\<open>"marketplace"\<close> or \<open>"archive"\<close>), \<open>version\<close>,
  an optional \<open>archiveUrl\<close> and an optional \<open>installedAt\<close>.
\<close>

datatype skill_source = Marketplace | Archive

record skill_install_record =
  source :: skill_source
  version :: string
  archiveUrl :: "string option"
  installedAt :: "string option"

text \<open>
  \<open>PrivateRegistryConfig\<close> of \<open>config/types.plugins.ts\<close>, with the fields the marketplace
  code reads. A property that is absent and a property whose value is \<open>undefined\<close> are both
  \<open>None\<close>: the code reads them alike (\<open>?.\<close>, \<open>??\<close>) and the persisted JSON omits both.
\<close>

record registry_config =
  npmRegistry :: "string option"
  catalogUrl :: "string option"
  authMethod :: "string option"
  authToken :: "string option"

record plugins_config =
  registry :: "registry_config option"
  plugins_other :: "(string \<times> json) list"

record skills_config =
  installs :: "skill_install_record obj option"
  skills_other :: "(string \<times> json) list"

text \<open>
  \<open>SimpleClawConfig\<close>: the two sub-trees of the marketplace code; every other field of
  the document is kept, uninterpreted, in \<open>config_other\<close>.
\<close>

record simpleclaw_config =
  plugins :: "plugins_config option"
  skills :: "skills_config option"
  config_other :: "(string \<times> json) list"

text \<open>The object spread \<open>{ ...cfg.skills }\<close>: spreading \<open>undefined\<close> gives no property.\<close>

definition spread_skills :: "skills_config option \<Rightarrow> skills_config" where
  "spread_skills s =
     (case s of None \<Rightarrow> \<lparr>installs = None, skills_other = []\<rparr> | Some sk \<Rightarrow> sk)"

text \<open>\<open>{ ...cfg.skills?.installs }\<close>\<close>

definition spread_installs :: "simpleclaw_config \<Rightarrow> skill_install_record obj" where
  "spread_installs cfg =
     (case skills cfg of
        None \<Rightarrow> []
      | Some sk \<Rightarrow> (case installs sk of None \<Rightarrow> [] | Some ins \<Rightarrow> ins))"

text \<open>
  \<open>recordSkillInstall(cfg, { skillName, ...record })\<close>. The first argument is the value of
  \<open>new Date().toISOString()\<close> at the call.
\<close>

definition recordSkillInstall ::
  "string \<Rightarrow> simpleclaw_config \<Rightarrow> string \<Rightarrow> skill_install_record \<Rightarrow> simpleclaw_config" where
  "recordSkillInstall now cfg skillName record =
     cfg\<lparr>skills := Some ((spread_skills (skills cfg))
       \<lparr>installs := Some (obj_set (spread_installs cfg) skillName
          (record\<lparr>installedAt :=
             Some (case installedAt record of Some t \<Rightarrow> t | None \<Rightarrow> now)\<rparr>))\<rparr>)\<rparr>"

text \<open>\<open>removeSkillInstall(cfg, skillName)\<close>\<close>

definition removeSkillInstall :: "simpleclaw_config \<Rightarrow> string \<Rightarrow> simpleclaw_config" where
  "removeSkillInstall cfg skillName =
     (let installs' = obj_delete (spread_installs cfg) skillName
      in cfg\<lparr>skills := Some ((spread_skills (skills cfg))
           \<lparr>installs := (if length (obj_keys installs') > 0 then Some installs' else None)\<rparr>)\<rparr>)"

definition empty_config :: simpleclaw_config where
  "empty_config = \<lparr>plugins = None, skills = None, config_other = []\<rparr>"

text \<open>Values to evaluate the ledger on: the records and configurations of the tests.\<close>

definition my_skill_record :: skill_install_record where
  "my_skill_record =
     \<lparr>source = Marketplace, version = ''1.0.0'',
      archiveUrl = Some ''gs://bucket/skills/my-skill-1.0.0.tar.gz'', installedAt = None\<rparr>"

definition other_skill_record :: skill_install_record where
  "other_skill_record =
     \<lparr>source = Archive, version = ''2.0.0'', archiveUrl = None,
      installedAt = Some ''2026-01-01T00:00:00.000Z''\<rparr>"

definition config_with_other :: simpleclaw_config where
  "config_with_other =
     \<lparr>plugins = None,
      skills = Some \<lparr>installs = Some [(''other-skill'', other_skill_record)],
                     skills_other = [(''allowBundled'', JArr [JStr ''github''])]\<rparr>,
      config_other = []\<rparr>"

section \<open>Strings\<close>

text \<open>
  A JavaScript string is modelled as a \<open>string\<close> of HOL. \<open>startsWith\<close>, \<open>includes\<close> (here \<open>str_includes\<close>),
  \<open>toLowerCase\<close> and \<open>trim\<close> are the methods of \<open>String.prototype\<close>; the last two
  are modelled on ASCII (letters \<open>A\<close> to \<open>Z\<close>; the white space characters tab, line
  feed, vertical tab, form feed, carriage return and space).
\<close>

fun startsWith :: "string \<Rightarrow> string \<Rightarrow> bool" where
  "startsWith s [] = True"
| "startsWith [] (p # ps) = False"
| "startsWith (c # cs) (p # ps) = (c = p \<and> startsWith cs ps)"

fun str_includes :: "string \<Rightarrow> string \<Rightarrow> bool" where
  "str_includes [] q = (q = [])"
| "str_includes (c # cs) q = (startsWith (c # cs) q \<or> str_includes cs q)"

definition lower_char :: "char \<Rightarrow> char" where
  "lower_char c =
     (case map_of (zip ''ABCDEFGHIJKLMNOPQRSTUVWXYZ'' ''abcdefghijklmnopqrstuvwxyz'') c of
        Some l \<Rightarrow> l
      | None \<Rightarrow> c)"

definition toLowerCase :: "string \<Rightarrow> string" where
  "toLowerCase s = map lower_char s"

definition is_space :: "char \<Rightarrow> bool" where
  "is_space c = (let n = (of_char c :: nat) in (9 \<le> n \<and> n \<le> 13) \<or> n = 32)"

definition trim :: "string \<Rightarrow> string" where
  "trim s = rev (dropWhile is_space (rev (dropWhile is_space s)))"

text \<open>A number in a template literal: its decimal digits.\<close>

definition digit_char :: "nat \<Rightarrow> char" where
  "digit_char d = ''0123456789'' ! d"

fun show_nat :: "nat \<Rightarrow> string" where
  "show_nat n =
     (if n < 10 then [digit_char n]
      else show_nat (n div 10) @ [digit_char (n mod 10)])"

text \<open>Truthiness of an optional string: \<open>undefined\<close> and \<open>""\<close> are falsy.\<close>

definition truthy :: "string option \<Rightarrow> bool" where
  "truthy s = (case s of None \<Rightarrow> False | Some t \<Rightarrow> t \<noteq> [])"

abbreviation dquote :: char where "dquote \<equiv> CHR 0x22"
abbreviation squote :: char where "squote \<equiv> CHR 0x27"
abbreviation backslash :: char where "backslash \<equiv> CHR 0x5C"

text \<open>
  \<open>path.join(a, b)\<close> of \<open>node:path\<close> on POSIX, for two arguments: the non-empty
  arguments are joined with a slash and the result is normalised (\<open>posix.normalize\<close>).
  \<open>split_path\<close> cuts a path at its slashes; \<open>normalize_step\<close> is what
  \<open>normalizeString\<close> does with one segment: an empty segment and \<open>.\<close> are dropped,
  \<open>..\<close> removes the segment before it (or is kept, in a relative path, when there is
  none to remove), any other segment is appended.
\<close>

fun split_from :: "string \<Rightarrow> string \<Rightarrow> string list" where
  "split_from cur [] = [cur]"
| "split_from cur (c # cs) =
     (if c = CHR ''/'' then cur # split_from [] cs else split_from (cur @ [c]) cs)"

definition split_path :: "string \<Rightarrow> string list" where
  "split_path path = split_from [] path"

fun join_segments :: "string list \<Rightarrow> string" where
  "join_segments [] = []"
| "join_segments [s] = s"
| "join_segments (s # t # ts) = s @ ''/'' @ join_segments (t # ts)"

definition normalize_step :: "bool \<Rightarrow> string list \<Rightarrow> string \<Rightarrow> string list" where
  "normalize_step allowAboveRoot res seg =
     (if seg = [] \<or> seg = ''.'' then res
      else if seg = ''..'' then
        (if res \<noteq> [] \<and> last res \<noteq> ''..'' then butlast res
         else if allowAboveRoot then res @ [''..'']
         else res)
      else res @ [seg])"

definition normalizeString :: "bool \<Rightarrow> string \<Rightarrow> string" where
  "normalizeString allowAboveRoot path =
     join_segments (foldl (normalize_step allowAboveRoot) [] (split_path path))"

definition normalize :: "string \<Rightarrow> string" where
  "normalize path =
     (if path = [] then ''.''
      else
        (let isAbsolute = (hd path = CHR ''/'');
             trailingSeparator = (last path = CHR ''/'');
             p = normalizeString (\<not> isAbsolute) path
         in if p = [] then (if isAbsolute then ''/'' else if trailingSeparator then ''./'' else ''.'')
            else (if isAbsolute then ''/'' else []) @ p @ (if trailingSeparator then ''/'' else [])))"

definition path_join :: "string \<Rightarrow> string \<Rightarrow> string" where
  "path_join a b =
     (if a = [] \<and> b = [] then ''.''
      else normalize (if a = [] then b else if b = [] then a else a @ ''/'' @ b))"

text \<open>
  A directory path that \<open>normalize\<close> leaves as it is and that does not end in a slash,
  such as the path that \<open>fs.mkdtemp\<close> returns for a prefix made by \<open>path.join\<close>;
  a path segment that is a plain name.
\<close>

definition in_normal_form :: "string \<Rightarrow> bool" where
  "in_normal_form dir =
     (dir \<noteq> [] \<and> dir \<noteq> ''.'' \<and> last dir \<noteq> CHR ''/'' \<and> normalize dir = dir)"

definition plain_segment :: "string \<Rightarrow> bool" where
  "plain_segment x = (x \<noteq> [] \<and> CHR ''/'' \<notin> set x \<and> x \<noteq> ''.'' \<and> x \<noteq> ''..'')"

text \<open>\<open>resolveGcsUrl\<close> (the same function in \<open>marketplace\<close> and in \<open>skill-install\<close>)\<close>

definition resolveGcsUrl :: "string \<Rightarrow> string" where
  "resolveGcsUrl url =
     (if \<not> startsWith url ''gs://'' then url
      else ''https://storage.googleapis.com/'' @ drop (length ''gs://'') url)"

section \<open>The catalog client\<close>

record marketplace_plugin_entry =
  plugin_id :: string
  plugin_name :: string
  plugin_description :: string
  plugin_npmSpec :: string
  plugin_version :: string
  plugin_kind :: string
  plugin_tags :: "string list option"

record marketplace_skill_entry =
  skill_name :: string
  skill_description :: string
  skill_archiveUrl :: "string option"
  skill_version :: string
  skill_tags :: "string list option"

record marketplace_catalog =
  catalog_version :: int
  catalog_updatedAt :: string
  catalog_registry :: string
  catalog_plugins :: "marketplace_plugin_entry list"
  catalog_skills :: "marketplace_skill_entry list"

text \<open>
  \<open>validateCatalog(body)\<close> on the parsed body; \<open>Some message\<close> is \<open>throw new Error(message)\<close>.
  A property read on an array or on an object without that key is \<open>undefined\<close>.
\<close>

definition json_prop :: "json \<Rightarrow> string \<Rightarrow> json option" where
  "json_prop body k = (case body of JObj kvs \<Rightarrow> map_of kvs k | _ \<Rightarrow> None)"

text \<open>\<open>!body || typeof body !== "object"\<close>\<close>

definition not_an_object :: "json \<Rightarrow> bool" where
  "not_an_object body = (case body of JObj _ \<Rightarrow> False | JArr _ \<Rightarrow> False | _ \<Rightarrow> True)"

definition is_number :: "json option \<Rightarrow> bool" where
  "is_number v = (case v of Some (JNum _) \<Rightarrow> True | _ \<Rightarrow> False)"

definition is_array :: "json option \<Rightarrow> bool" where
  "is_array v = (case v of Some (JArr _) \<Rightarrow> True | _ \<Rightarrow> False)"

definition validateCatalog :: "json \<Rightarrow> string option" where
  "validateCatalog body =
     (if not_an_object body then Some ''Invalid catalog: expected an object''
      else if \<not> is_number (json_prop body ''version'')
        then Some (''Invalid catalog: missing '' @ [squote] @ ''version'' @ [squote] @ '' field'')
      else if \<not> is_array (json_prop body ''plugins'')
        then Some (''Invalid catalog: missing '' @ [squote] @ ''plugins'' @ [squote] @ '' array'')
      else if \<not> is_array (json_prop body ''skills'')
        then Some (''Invalid catalog: missing '' @ [squote] @ ''skills'' @ [squote] @ '' array'')
      else None)"

text \<open>
  The response of the global \<open>fetch\<close>, as far as \<open>fetchCatalog\<close> reads it; \<open>json_outcome\<close>
  is what \<open>await res.json()\<close> does (\<open>Inl\<close>: it throws).
\<close>

record http_response =
  ok :: bool
  status :: nat
  statusText :: string

record fetch_response = http_response +
  json_outcome :: "string + json"

definition FETCH_TIMEOUT_MS :: nat where
  "FETCH_TIMEOUT_MS = 15000"

definition bearer_headers :: "string option \<Rightarrow> (string \<times> string) list" where
  "bearer_headers auth_token =
     (if truthy auth_token then [(''Authorization'', ''Bearer '' @ the auth_token)] else [])"

text \<open>
  \<open>fetchCatalog({ catalogUrl, authToken })\<close>. The first argument is the global \<open>fetch\<close>
  (url, headers, timeout of the abort signal); \<open>Inl message\<close> is a rejected promise.
\<close>

definition fetchCatalog ::
  "(string \<Rightarrow> (string \<times> string) list \<Rightarrow> nat \<Rightarrow> string + fetch_response) \<Rightarrow>
     string \<Rightarrow> string option \<Rightarrow> string + json" where
  "fetchCatalog fetch catalog_url auth_token =
     (let url = resolveGcsUrl catalog_url in
      case fetch url (bearer_headers auth_token) FETCH_TIMEOUT_MS of
        Inl e \<Rightarrow> Inl e
      | Inr res \<Rightarrow>
          if \<not> ok res
          then Inl (''Failed to fetch catalog from '' @ url @ '': '' @ show_nat (status res)
                      @ '' '' @ statusText res)
          else (case json_outcome res of
                  Inl e \<Rightarrow> Inl e
                | Inr body \<Rightarrow>
                    (case validateCatalog body of Some msg \<Rightarrow> Inl msg | None \<Rightarrow> Inr body)))"

text \<open>\<open>p.tags?.some((t) => t.toLowerCase().includes(q))\<close>; \<open>undefined\<close> is falsy.\<close>

definition tags_some :: "string list option \<Rightarrow> string \<Rightarrow> bool" where
  "tags_some tags q =
     (case tags of None \<Rightarrow> False | Some ts \<Rightarrow> list_ex (\<lambda>t. str_includes (toLowerCase t) q) ts)"

text \<open>\<open>searchCatalog(catalog, query)\<close>: the pair of the \<open>plugins\<close> and the \<open>skills\<close> found.\<close>

definition searchCatalog ::
  "marketplace_catalog \<Rightarrow> string \<Rightarrow> marketplace_plugin_entry list \<times> marketplace_skill_entry list" where
  "searchCatalog catalog query =
     (let q = toLowerCase query;
          plugins = filter (\<lambda>p.
            str_includes (toLowerCase (plugin_id p)) q \<or>
            str_includes (toLowerCase (plugin_name p)) q \<or>
            str_includes (toLowerCase (plugin_description p)) q \<or>
            tags_some (plugin_tags p) q) (catalog_plugins catalog);
          skills = filter (\<lambda>s.
            str_includes (toLowerCase (skill_name s)) q \<or>
            str_includes (toLowerCase (skill_description s)) q \<or>
            tags_some (skill_tags s) q) (catalog_skills catalog)
      in (plugins, skills))"

text \<open>
  The words of the specification, to compare \<open>searchCatalog\<close> with: a text contains a
  query case-insensitively when the lower-cased query is a contiguous part of the
  lower-cased text.
\<close>

definition contains_ci :: "string \<Rightarrow> string \<Rightarrow> bool" where
  "contains_ci text query = sublist (toLowerCase query) (toLowerCase text)"

definition spec_extension_matches :: "marketplace_plugin_entry \<Rightarrow> string \<Rightarrow> bool" where
  "spec_extension_matches p query =
     (\<exists>text \<in> {plugin_id p, plugin_name p, plugin_description p}
               \<union> (case plugin_tags p of None \<Rightarrow> {} | Some ts \<Rightarrow> set ts).
        contains_ci text query)"

definition spec_skill_matches :: "marketplace_skill_entry \<Rightarrow> string \<Rightarrow> bool" where
  "spec_skill_matches s query =
     (\<exists>text \<in> {skill_name s, skill_description s}
               \<union> (case skill_tags s of None \<Rightarrow> {} | Some ts \<Rightarrow> set ts).
        contains_ci text query)"

text \<open>
  Values to evaluate the catalog client on: a \<open>fetch\<close> that answers every request with
  \<open>200 OK\<close> and the given body; the body \<open>{ version: 1, skills: [] }\<close> of the test for a
  missing collection; the catalog of the tests.
\<close>

definition fetch_ok_with :: "json \<Rightarrow> string \<Rightarrow> (string \<times> string) list \<Rightarrow> nat \<Rightarrow> string + fetch_response" where
  "fetch_ok_with body url headers timeout =
     Inr \<lparr>ok = True, status = 200, statusText = ''OK'', json_outcome = Inr body\<rparr>"

definition body_without_collection :: json where
  "body_without_collection = JObj [(''version'', JNum 1), (''skills'', JArr [])]"

definition body_without_version :: json where
  "body_without_version = JObj [(''plugins'', JArr []), (''skills'', JArr [])]"

definition MOCK_CATALOG :: marketplace_catalog where
  "MOCK_CATALOG =
     \<lparr>catalog_version = 1, catalog_updatedAt = ''2026-02-25T00:00:00Z'',
      catalog_registry = ''https://us-central1-npm.pkg.dev/project/repo'',
      catalog_plugins =
        [\<lparr>plugin_id = ''discord'', plugin_name = ''Discord'',
          plugin_description = ''Discord channel plugin'', plugin_npmSpec = ''@simpleclaw/discord'',
          plugin_version = ''1.0.0'', plugin_kind = ''channel'',
          plugin_tags = Some [''chat'', ''messaging'']\<rparr>,
         \<lparr>plugin_id = ''memory-core'', plugin_name = ''Memory Core'',
          plugin_description = ''Core memory search plugin'',
          plugin_npmSpec = ''@simpleclaw/memory-core'',
          plugin_version = ''1.0.0'', plugin_kind = ''memory'', plugin_tags = None\<rparr>],
      catalog_skills =
        [\<lparr>skill_name = ''runbook'', skill_description = ''Internal runbook automation'',
          skill_archiveUrl = Some ''gs://bucket/runbook.tar.gz'', skill_version = ''1.0.0'',
          skill_tags = Some [''ops'', ''automation'']\<rparr>]\<rparr>"

section \<open>The credential resolver\<close>

text \<open>
  \<open>GceTokenResponse\<close>; the code casts the parsed body to it. A body without the property
  has \<open>access_token = None\<close>.
\<close>

record gce_token_response =
  access_token :: "string option"
  expires_in :: int
  token_type :: string

record metadata_response =
  metadata_ok :: bool
  metadata_json :: "string + gce_token_response"

text \<open>
  The result of \<open>runCommandWithTimeout\<close> (of \<open>process/exec\<close>, not among the sources), as
  far as the code reads it: the exit code (\<open>None\<close> when the process has none) and the
  standard output.
\<close>

record command_result =
  code :: "int option"
  stdout :: string

text \<open>
  The two collaborators of the resolver, as functions of what the code passes to them:
  the global \<open>fetch\<close> (url, headers, timeout of the abort signal in milliseconds) and
  \<open>runCommandWithTimeout\<close> (argv, timeout in milliseconds). \<open>Inl\<close> is a thrown error.
\<close>

record gar_world =
  metadata_fetch :: "string \<Rightarrow> (string \<times> string) list \<Rightarrow> nat \<Rightarrow> string + metadata_response"
  runCommandWithTimeout :: "string list \<Rightarrow> nat \<Rightarrow> string + command_result"

datatype gar_call =
    MetadataFetch string "(string \<times> string) list" nat
  | RunCommand "string list" nat

definition GCE_METADATA_BASE :: string where
  "GCE_METADATA_BASE = ''http://metadata.google.internal/computeMetadata/v1''"

definition METADATA_TOKEN_PATH :: string where
  "METADATA_TOKEN_PATH = ''/instance/service-accounts/default/token''"

definition METADATA_TIMEOUT_MS :: nat where
  "METADATA_TIMEOUT_MS = 3000"

definition metadata_headers :: "(string \<times> string) list" where
  "metadata_headers = [(''Metadata-Flavor'', ''Google'')]"

definition gcloud_argv :: "string list" where
  "gcloud_argv = [''gcloud'', ''auth'', ''print-access-token'']"

text \<open>\<open>value || null\<close> on an optional string\<close>

definition or_null :: "string option \<Rightarrow> string option" where
  "or_null s = (if truthy s then s else None)"

text \<open>The body of the \<open>try\<close> of \<open>fetchMetadataToken\<close>; \<open>Inl\<close> is an error thrown in it.\<close>

definition fetchMetadataToken_try :: "gar_world \<Rightarrow> string + string option" where
  "fetchMetadataToken_try w =
     (case metadata_fetch w (GCE_METADATA_BASE @ METADATA_TOKEN_PATH) metadata_headers
             METADATA_TIMEOUT_MS of
        Inl e \<Rightarrow> Inl e
      | Inr res \<Rightarrow>
          if \<not> metadata_ok res then Inr None
          else (case metadata_json res of
                  Inl e \<Rightarrow> Inl e
                | Inr body \<Rightarrow> Inr (or_null (access_token body))))"

text \<open>\<open>fetchMetadataToken\<close>: the \<open>catch\<close> returns \<open>null\<close>.\<close>

definition fetchMetadataToken :: "gar_world \<Rightarrow> string + string option" where
  "fetchMetadataToken w =
     (case fetchMetadataToken_try w of Inl e \<Rightarrow> Inr None | Inr t \<Rightarrow> Inr t)"

definition fetchGcloudCliToken_try :: "gar_world \<Rightarrow> string + string option" where
  "fetchGcloudCliToken_try w =
     (case runCommandWithTimeout w gcloud_argv 10000 of
        Inl e \<Rightarrow> Inl e
      | Inr result \<Rightarrow>
          if code result \<noteq> Some 0 then Inr None
          else Inr (or_null (Some (trim (stdout result)))))"

definition fetchGcloudCliToken :: "gar_world \<Rightarrow> string + string option" where
  "fetchGcloudCliToken w =
     (case fetchGcloudCliToken_try w of Inl e \<Rightarrow> Inr None | Inr t \<Rightarrow> Inr t)"

text \<open>
  \<open>resolveGarAuthToken()\<close>: the outcome of the promise (\<open>Inl\<close>: rejected) and the calls to
  the collaborators, in order. An \<open>await\<close> of a rejected helper would reject the promise.
\<close>

definition resolveGarAuthToken :: "gar_world \<Rightarrow> (string + string option) \<times> gar_call list" where
  "resolveGarAuthToken w =
     (let call1 = MetadataFetch (GCE_METADATA_BASE @ METADATA_TOKEN_PATH) metadata_headers
                    METADATA_TIMEOUT_MS;
          call2 = RunCommand gcloud_argv 10000
      in case fetchMetadataToken w of
           Inl e \<Rightarrow> (Inl e, [call1])
         | Inr metadataToken \<Rightarrow>
             if truthy metadataToken then (Inr metadataToken, [call1])
             else (case fetchGcloudCliToken w of
                     Inl e \<Rightarrow> (Inl e, [call1, call2])
                   | Inr cliToken \<Rightarrow>
                       if truthy cliToken then (Inr cliToken, [call1, call2])
                       else (Inr None, [call1, call2])))"

section \<open>The archive installer\<close>

datatype skill_install_result =
    SkillInstallSuccess string string
  | SkillInstallFailure string

text \<open>
  The calls of \<open>installSkillFromArchiveUrl\<close> to its collaborators (\<open>node:fs/promises\<close>,
  the guarded fetch and the \<open>release\<close> it returns, the response, \<open>ensureDir\<close>,
  \<open>extractArchive\<close>), with the arguments the code passes. \<open>ExtractArchive\<close> has the
  archive, the destination and the timeout; the call is always for a gzipped tar with one
  leading path component stripped. \<open>Rm\<close> and \<open>Cp\<close> are the recursive \<open>fs.rm\<close> (with
  \<open>force\<close>) and \<open>fs.cp\<close>. The optional logger is left out.
\<close>

datatype effect =
    Mkdtemp string
  | FetchWithSsrFGuard string "(string \<times> string) list" nat
  | ArrayBuffer
  | WriteFile string
  | Release
  | EnsureDir string
  | ExtractArchive string string nat
  | Stat string
  | Rm string
  | Cp string string

text \<open>
  What each collaborator does in one run of the installer: \<open>Inl message\<close> or
  \<open>Some message\<close> is a thrown error, whose message is all the code reads of it.
\<close>

record install_world =
  CONFIG_DIR :: string
  os_tmpdir :: string
  mkdtemp_outcome :: "string + string"
  fetch_outcome :: "string + http_response"
  arrayBuffer_outcome :: "string option"
  writeFile_outcome :: "string option"
  release_outcome :: "string option"
  ensureDir_extract_outcome :: "string option"
  extractArchive_outcome :: "string option"
  stat_outcome :: "string option"
  rm_target_outcome :: "string option"
  ensureDir_managed_outcome :: "string option"
  cp_outcome :: "string option"

definition DOWNLOAD_TIMEOUT_MS :: nat where
  "DOWNLOAD_TIMEOUT_MS = 60000"

definition EXTRACT_TIMEOUT_MS :: nat where
  "EXTRACT_TIMEOUT_MS = 30000"

text \<open>\<open>validateSkillName(name)\<close>; \<open>Inl message\<close> is \<open>throw new Error(message)\<close>.\<close>

definition validateSkillName :: "string \<Rightarrow> string + unit" where
  "validateSkillName name =
     (if name = [] \<or> str_includes name ''/'' \<or> str_includes name [backslash]
         \<or> name = ''.'' \<or> name = ''..''
      then Inl (''Invalid skill name: '' @ [dquote] @ name @ [dquote])
      else if startsWith name ''.''
      then Inl (''Skill name cannot start with a dot: '' @ [dquote] @ name @ [dquote])
      else Inr ())"

text \<open>
  How a block of statements ends: an error is thrown, the function returns a result, or
  control goes on to the next statement.
\<close>

datatype 'a flow = Throw string | Return skill_install_result | Next 'a

fun then_do ::
  "'a flow \<times> effect list \<Rightarrow> ('a \<Rightarrow> 'b flow \<times> effect list) \<Rightarrow> 'b flow \<times> effect list" where
  "then_do (Next a, tr) f = (case f a of (fl, tr') \<Rightarrow> (fl, tr @ tr'))"
| "then_do (Throw e, tr) f = (Throw e, tr)"
| "then_do (Return r, tr) f = (Return r, tr)"

text \<open>An awaited call that returns nothing\<close>

definition call :: "effect \<Rightarrow> string option \<Rightarrow> unit flow \<times> effect list" where
  "call ev outcome = (case outcome of Some e \<Rightarrow> (Throw e, [ev]) | None \<Rightarrow> (Next (), [ev]))"

text \<open>The body of the inner \<open>try\<close>: the status check, then the body is read and written.\<close>

definition downloadBody ::
  "install_world \<Rightarrow> http_response \<Rightarrow> string \<Rightarrow> unit flow \<times> effect list" where
  "downloadBody w response archivePath =
     (if \<not> ok response
      then (Return (SkillInstallFailure
              (''Download failed: '' @ show_nat (status response) @ '' '' @ statusText response)),
            [])
      else then_do (call ArrayBuffer (arrayBuffer_outcome w))
             (\<lambda>_. call (WriteFile archivePath) (writeFile_outcome w)))"

text \<open>
  \<open>finally { await release(); }\<close>: it runs however the block ended; an error thrown by
  \<open>release\<close> replaces the way the block ended.
\<close>

definition finally_release ::
  "install_world \<Rightarrow> unit flow \<times> effect list \<Rightarrow> unit flow \<times> effect list" where
  "finally_release w blk =
     (case release_outcome w of
        Some e \<Rightarrow> (Throw e, snd blk @ [Release])
      | None \<Rightarrow> (fst blk, snd blk @ [Release]))"

text \<open>\<open>try { await fs.stat(skillMdPath); } catch { return { ok: false, ... }; }\<close>\<close>

definition checkSkillMd :: "install_world \<Rightarrow> string \<Rightarrow> unit flow \<times> effect list" where
  "checkSkillMd w skillMdPath =
     (case stat_outcome w of
        Some e \<Rightarrow> (Return (SkillInstallFailure
            ''Archive does not contain a SKILL.md file. Not a valid skill package.''),
          [Stat skillMdPath])
      | None \<Rightarrow> (Next (), [Stat skillMdPath]))"

text \<open>
  The statements of the outer \<open>try\<close> after the download: the archive is extracted into
  the staging directory, \<open>SKILL.md\<close> is looked for, and the staged files replace the
  target directory.
\<close>

definition extractAndPlace ::
  "install_world \<Rightarrow> string \<Rightarrow> string \<Rightarrow> string \<Rightarrow> string \<Rightarrow> string \<Rightarrow>
     skill_install_result flow \<times> effect list" where
  "extractAndPlace w name managedSkillsDir targetDir tmpDir archivePath =
     (let extractDir = path_join tmpDir ''extracted'';
          skillMdPath = path_join extractDir ''SKILL.md''
      in then_do (call (EnsureDir extractDir) (ensureDir_extract_outcome w)) (\<lambda>_.
         then_do (call (ExtractArchive archivePath extractDir EXTRACT_TIMEOUT_MS)
                    (extractArchive_outcome w)) (\<lambda>_.
         then_do (checkSkillMd w skillMdPath) (\<lambda>_.
         then_do (call (Rm targetDir) (rm_target_outcome w)) (\<lambda>_.
         then_do (call (EnsureDir managedSkillsDir) (ensureDir_managed_outcome w)) (\<lambda>_.
         then_do (call (Cp extractDir targetDir) (cp_outcome w)) (\<lambda>_.
         (Return (SkillInstallSuccess name targetDir), []))))))))"

text \<open>The body of the outer \<open>try\<close>.\<close>

definition installTry ::
  "install_world \<Rightarrow> string \<Rightarrow> string \<Rightarrow> string \<Rightarrow> string \<Rightarrow> string \<Rightarrow> string option \<Rightarrow>
     skill_install_result flow \<times> effect list" where
  "installTry w name url managedSkillsDir targetDir tmpDir auth_token =
     (let archivePath = path_join tmpDir (name @ ''.tar.gz'');
          fetch_call = FetchWithSsrFGuard url (bearer_headers auth_token) DOWNLOAD_TIMEOUT_MS
      in case fetch_outcome w of
           Inl e \<Rightarrow> (Throw e, [fetch_call])
         | Inr response \<Rightarrow>
             then_do (Next (), [fetch_call]) (\<lambda>_.
             then_do (finally_release w (downloadBody w response archivePath)) (\<lambda>_.
             extractAndPlace w name managedSkillsDir targetDir tmpDir archivePath)))"

text \<open>
  \<open>installSkillFromArchiveUrl({ name, archiveUrl, managedSkillsDir, authToken })\<close>: the
  outcome of the promise (\<open>Inl\<close>: rejected, \<open>Inr\<close>: the result it resolves to) and the calls
  made, in order. \<open>fs.mkdtemp\<close> is awaited outside the \<open>try\<close>; the \<open>catch\<close> turns an error
  into a failure result; the \<open>finally\<close> removes the temporary directory and ignores an
  error of that removal.
\<close>

definition installSkillFromArchiveUrl ::
  "install_world \<Rightarrow> string \<Rightarrow> string \<Rightarrow> string option \<Rightarrow> string option \<Rightarrow>
     (string + skill_install_result) \<times> effect list" where
  "installSkillFromArchiveUrl w name archive_url managed_dir auth_token =
     (case validateSkillName name of
        Inl message \<Rightarrow> (Inr (SkillInstallFailure message), [])
      | Inr _ \<Rightarrow>
          (let managedSkillsDir =
                 (case managed_dir of Some d \<Rightarrow> d | None \<Rightarrow> path_join (CONFIG_DIR w) ''skills'');
               targetDir = path_join managedSkillsDir name;
               url = resolveGcsUrl archive_url;
               tmp_prefix = path_join (os_tmpdir w) (''simpleclaw-skill-'' @ name @ ''-'')
           in case mkdtemp_outcome w of
                Inl e \<Rightarrow> (Inl e, [Mkdtemp tmp_prefix])
              | Inr tmpDir \<Rightarrow>
                  (case installTry w name url managedSkillsDir targetDir tmpDir auth_token of
                     (Throw message, tr) \<Rightarrow>
                       (Inr (SkillInstallFailure message), Mkdtemp tmp_prefix # tr @ [Rm tmpDir])
                   | (Return r, tr) \<Rightarrow> (Inr r, Mkdtemp tmp_prefix # tr @ [Rm tmpDir])
                   | (Next r, tr) \<Rightarrow> (Inr r, Mkdtemp tmp_prefix # tr @ [Rm tmpDir]))))"

text \<open>
  The paths that a call creates, writes or removes, and the paths at or below a
  directory.
\<close>

fun mutated_paths :: "effect \<Rightarrow> string list" where
  "mutated_paths (WriteFile p) = [p]"
| "mutated_paths (EnsureDir p) = [p]"
| "mutated_paths (ExtractArchive a d t) = [d]"
| "mutated_paths (Rm p) = [p]"
| "mutated_paths (Cp src dst) = [dst]"
| "mutated_paths _ = []"

definition inside :: "string \<Rightarrow> string \<Rightarrow> bool" where
  "inside dir p = (p = dir \<or> startsWith p (dir @ ''/''))"

text \<open>
  Runs of the installer to evaluate it on: every collaborator succeeds; the same with a
  response \<open>404 Not Found\<close>; the same with an archive that has no \<open>SKILL.md\<close>.
\<close>

definition world_ok :: install_world where
  "world_ok =
     \<lparr>CONFIG_DIR = ''/home/u/.simpleclaw'', os_tmpdir = ''/tmp'',
      mkdtemp_outcome = Inr ''/tmp/simpleclaw-skill-good-skill-Ab12Cd'',
      fetch_outcome = Inr \<lparr>ok = True, status = 200, statusText = ''OK''\<rparr>,
      arrayBuffer_outcome = None, writeFile_outcome = None, release_outcome = None,
      ensureDir_extract_outcome = None, extractArchive_outcome = None, stat_outcome = None,
      rm_target_outcome = None, ensureDir_managed_outcome = None, cp_outcome = None\<rparr>"

definition world_404 :: install_world where
  "world_404 = world_ok\<lparr>fetch_outcome := Inr \<lparr>ok = False, status = 404, statusText = ''Not Found''\<rparr>\<rparr>"

definition world_no_marker :: install_world where
  "world_no_marker = world_ok\<lparr>stat_outcome := Some ''ENOENT: no such file or directory''\<rparr>"

section \<open>The sync handler of the gateway\<close>





text \<open>\<open>cfg.plugins?.registry\<close>\<close>

definition registry_of :: "simpleclaw_config \<Rightarrow> registry_config option" where
  "registry_of cfg = (case plugins cfg of None \<Rightarrow> None | Some p \<Rightarrow> registry p)"

text \<open>\<open>resolveMarketplaceAuthToken(cfg)\<close>\<close>

definition resolveMarketplaceAuthToken ::
  "gar_world \<Rightarrow> simpleclaw_config \<Rightarrow> string + string option" where
  "resolveMarketplaceAuthToken g cfg =
     (case registry_of cfg of
        None \<Rightarrow> Inr None
      | Some reg \<Rightarrow>
          if authMethod reg = Some ''gcloud-adc'' then fst (resolveGarAuthToken g)
          else if authMethod reg = Some ''token'' \<and> truthy (authToken reg) then Inr (authToken reg)
          else Inr None)"













section \<open>Facts about strings\<close>

lemma startsWith_prefix: "startsWith s p \<longleftrightarrow> prefix p s"
  by (induction s p rule: startsWith.induct) auto

lemma str_includes_sublist: "str_includes s q \<longleftrightarrow> sublist q s"
  by (induction s) (auto simp: startsWith_prefix sublist_Cons_right)

lemma str_includes_char: "str_includes s [c] \<longleftrightarrow> c \<in> set s"
  by (induction s) (auto simp: startsWith_prefix)

lemma startsWith_char: "startsWith s [c] \<longleftrightarrow> take 1 s = [c]"
  by (cases s) auto

lemma str_includes_append: "str_includes (a @ q @ b) q"
  by (simp add: str_includes_sublist)

lemma str_includes_prefix: "str_includes (q @ b) q"
  using str_includes_append [of "[]" q b] by simp

section \<open>Facts about paths\<close>

lemmas path_eval =
  path_join_def normalize_def normalizeString_def normalize_step_def split_path_def

lemma split_from_append:
  "split_from cur (a @ CHR ''/'' # b) = split_from cur a @ split_from [] b"
  by (induction a arbitrary: cur) auto

lemma split_path_append:
  "split_path (a @ CHR ''/'' # b) = split_path a @ split_path b"
  by (simp add: split_path_def split_from_append)

lemma split_from_plain: "CHR ''/'' \<notin> set s \<Longrightarrow> split_from cur s = [cur @ s]"
  by (induction s arbitrary: cur) auto

lemma split_path_plain: "CHR ''/'' \<notin> set s \<Longrightarrow> split_path s = [s]"
  by (simp add: split_path_def split_from_plain)

lemma join_segments_snoc:
  "join_segments (S @ [x]) = (if S = [] then x else join_segments S @ ''/'' @ x)"
  by (induction S rule: join_segments.induct) auto

lemma normalize_step_plain:
  "plain_segment x \<Longrightarrow> normalize_step b res x = res @ [x]"
  by (simp add: normalize_step_def plain_segment_def)

lemma fold_snoc_plain:
  "plain_segment x \<Longrightarrow>
   foldl (normalize_step b) [] (xs @ [x]) = foldl (normalize_step b) [] xs @ [x]"
  by (simp add: normalize_step_plain)

lemma normalize_step_segments_nonempty:
  "\<forall>s \<in> set res. s \<noteq> [] \<Longrightarrow> \<forall>s \<in> set (normalize_step b res seg). s \<noteq> []"
  by (auto simp: normalize_step_def dest: in_set_butlastD)

lemma fold_segments_nonempty:
  "\<forall>s \<in> set res. s \<noteq> [] \<Longrightarrow> \<forall>s \<in> set (foldl (normalize_step b) res xs). s \<noteq> []"
proof (induction xs arbitrary: res)
  case Nil
  then show ?case by simp
next
  case (Cons x xs)
  from Cons.IH [OF normalize_step_segments_nonempty [OF Cons.prems, of b x]]
  show ?case by simp
qed

lemma join_segments_empty:
  "\<forall>s \<in> set S. s \<noteq> [] \<Longrightarrow> join_segments S = [] \<longleftrightarrow> S = []"
  by (induction S rule: join_segments.induct) auto

text \<open>The normal form of a path that ends in a plain segment.\<close>

lemma normalize_snoc:
  assumes x: "plain_segment x" and J: "split_path J = X @ [x]" and ne: "J \<noteq> []"
    and lastJ: "last J \<noteq> CHR ''/''"
  shows "normalize J =
           (if hd J = CHR ''/'' then ''/'' else []) @
           join_segments (foldl (normalize_step (hd J \<noteq> CHR ''/'')) [] X @ [x])"
proof -
  have "join_segments (foldl (normalize_step (hd J \<noteq> CHR ''/'')) [] X @ [x]) \<noteq> []"
    using x by (auto simp: join_segments_snoc plain_segment_def)
  then show ?thesis
    using ne lastJ J
    by (simp add: normalize_def normalizeString_def Let_def normalize_step_plain [OF x])
qed

lemma path_join_last_component:
  assumes x: "plain_segment x"
  shows "\<exists>pre. path_join d x = pre @ x \<and> (pre = [] \<or> last pre = CHR ''/'')"
proof -
  from x have xne: "x \<noteq> []" and nosep: "CHR ''/'' \<notin> set x"
    by (simp_all add: plain_segment_def)
  then have lastx: "last x \<noteq> CHR ''/''" by (metis last_in_set)
  let ?J = "if d = [] then x else d @ ''/'' @ x"
  have pj: "path_join d x = normalize ?J"
    using xne by (simp add: path_join_def)
  obtain X where spl: "split_path ?J = X @ [x]"
    using split_path_append [of d x] split_path_plain [OF nosep] by (cases "d = []") auto
  have Jne: "?J \<noteq> []" using xne by simp
  have lastJ: "last ?J \<noteq> CHR ''/''" using lastx xne by simp
  let ?S = "foldl (normalize_step (hd ?J \<noteq> CHR ''/'')) [] X"
  let ?A = "if hd ?J = CHR ''/'' then ''/'' else []"
  from normalize_snoc [OF x spl Jne lastJ]
  have "normalize ?J = ?A @ join_segments (?S @ [x])" .
  then have "path_join d x = (?A @ (if ?S = [] then [] else join_segments ?S @ ''/'')) @ x"
    by (simp add: pj join_segments_snoc)
  moreover have "(?A @ (if ?S = [] then [] else join_segments ?S @ ''/'')) = []
      \<or> last (?A @ (if ?S = [] then [] else join_segments ?S @ ''/'')) = CHR ''/''"
    by simp
  ultimately show ?thesis by blast
qed

lemma path_join_normal:
  assumes d: "in_normal_form d" and x: "plain_segment x"
  shows "path_join d x = d @ ''/'' @ x"
proof -
  from x have xne: "x \<noteq> []" and nosep: "CHR ''/'' \<notin> set x"
    by (simp_all add: plain_segment_def)
  then have lastx: "last x \<noteq> CHR ''/''" by (metis last_in_set)
  from d have dne: "d \<noteq> []" and ddot: "d \<noteq> ''.''" and lastd: "last d \<noteq> CHR ''/''"
    and nd: "normalize d = d"
    by (simp_all add: in_normal_form_def)
  let ?b = "hd d \<noteq> CHR ''/''"
  let ?S = "foldl (normalize_step ?b) [] (split_path d)"
  let ?A = "if hd d = CHR ''/'' then ''/'' else []"
  have segs: "\<forall>s \<in> set ?S. s \<noteq> []"
    by (rule fold_segments_nonempty) simp
  have Sne: "join_segments ?S \<noteq> []"
  proof
    assume "join_segments ?S = []"
    with nd dne lastd have "d = ''/'' \<or> d = ''.''"
      by (auto simp add: normalize_def normalizeString_def Let_def split: if_splits)
    with ddot lastd show False by auto
  qed
  with nd dne lastd have deq: "d = ?A @ join_segments ?S"
    by (simp add: normalize_def normalizeString_def Let_def)
  from Sne have S_ne: "?S \<noteq> []" by auto
  let ?J = "d @ ''/'' @ x"
  have pj: "path_join d x = normalize ?J"
    using xne dne by (simp add: path_join_def)
  have spl: "split_path ?J = split_path d @ [x]"
    using split_path_append [of d x] split_path_plain [OF nosep] by simp
  have hdJ: "hd ?J = hd d" using dne by simp
  have lastJ: "last ?J \<noteq> CHR ''/''" using lastx xne by simp
  have Jne: "?J \<noteq> []" by simp
  from normalize_snoc [OF x spl Jne lastJ]
  have "normalize ?J = ?A @ join_segments (?S @ [x])"
    unfolding hdJ .
  also have "\<dots> = ?A @ join_segments ?S @ ''/'' @ x"
    using S_ne by (simp add: join_segments_snoc)
  also have "\<dots> = d @ ''/'' @ x"
    using deq by (metis append.assoc)
  finally show ?thesis by (simp add: pj)
qed

lemma in_normal_form_child:
  assumes d: "in_normal_form d" and x: "plain_segment x"
  shows "in_normal_form (d @ ''/'' @ x)"
proof -
  from x have xne: "x \<noteq> []" and nosep: "CHR ''/'' \<notin> set x"
    by (simp_all add: plain_segment_def)
  then have lastx: "last x \<noteq> CHR ''/''" by (metis last_in_set)
  from d have dne: "d \<noteq> []" by (simp add: in_normal_form_def)
  have "normalize (d @ ''/'' @ x) = path_join d x"
    using xne dne by (simp add: path_join_def)
  with path_join_normal [OF d x] have "normalize (d @ ''/'' @ x) = d @ ''/'' @ x" by simp
  moreover have "d @ ''/'' @ x \<noteq> ''.''"
    using dne xne by (cases d) auto
  ultimately show ?thesis
    using lastx xne by (simp add: in_normal_form_def)
qed

section \<open>The install ledger: helper facts\<close>

lemma obj_delete_obj_set_fresh:
  "k \<notin> set (obj_keys ob) \<Longrightarrow> obj_delete (obj_set ob k v) k = ob"
  by (induction ob) (auto simp: obj_delete_def obj_keys_def)

lemma obj_set_obj_set: "obj_set (obj_set ob k v) k w = obj_set ob k w"
  by (induction ob) auto

lemma obj_get_obj_set: "obj_get (obj_set ob k v) k = Some v"
  by (induction ob) (auto simp: obj_get_def)


lemma obj_keys_obj_set: "set (obj_keys (obj_set ob k v)) = insert k (set (obj_keys ob))"
  by (induction ob) (force simp: obj_keys_def)+

lemma spread_installs_recordSkillInstall:
  "spread_installs (recordSkillInstall now cfg k r) =
     obj_set (spread_installs cfg) k
       (r\<lparr>installedAt := Some (case installedAt r of Some t \<Rightarrow> t | None \<Rightarrow> now)\<rparr>)"
  by (simp add: recordSkillInstall_def spread_installs_def)

section \<open>The archive installer: helper facts\<close>

lemma then_do_snd:
  "snd (then_do a f) = snd a @ (case fst a of Next v \<Rightarrow> snd (f v) | _ \<Rightarrow> [])"
  by (cases "(a, f)" rule: then_do.cases) (auto split: prod.splits)

lemma then_do_fst:
  "fst (then_do a f) =
     (case fst a of Next v \<Rightarrow> fst (f v) | Throw e \<Rightarrow> Throw e | Return r \<Rightarrow> Return r)"
  by (cases "(a, f)" rule: then_do.cases) (auto split: prod.splits)

lemma snd_call: "snd (call ev out) = [ev]"
  by (simp add: call_def split: option.splits)

lemma extractAndPlace_no_release:
  "Release \<notin> set (snd (extractAndPlace w name m t tmp a))"
  by (simp add: extractAndPlace_def Let_def then_do_snd snd_call checkSkillMd_def
      del: then_do.simps split: flow.splits option.splits)

lemma download_release_once:
  "count_list (snd (finally_release w (downloadBody w r p))) Release = 1"
  by (simp add: finally_release_def downloadBody_def then_do_snd snd_call
      del: then_do.simps split: flow.splits option.splits)

lemma count_list_absent: "x \<notin> set xs \<Longrightarrow> count_list xs x = 0"
  by (simp add: count_list_0_iff)

lemma installTry_release_once:
  "fetch_outcome w = Inr response \<Longrightarrow>
   count_list (snd (installTry w name url m t tmp tok)) Release = 1"
  by (simp add: installTry_def Let_def then_do_snd download_release_once
      count_list_absent extractAndPlace_no_release del: then_do.simps split: flow.splits)

lemma installTry_release_none:
  "fetch_outcome w = Inl e \<Longrightarrow>
   count_list (snd (installTry w name url m t tmp tok)) Release = 0"
  by (simp add: installTry_def Let_def)

text \<open>The trace of the installer once the temporary directory exists.\<close>

lemma install_trace:
  assumes "validateSkillName name = Inr ()" and "mkdtemp_outcome w = Inr tmpDir"
  shows "\<exists>tr. snd (installSkillFromArchiveUrl w name url dir tok) =
            Mkdtemp (path_join (os_tmpdir w) (''simpleclaw-skill-'' @ name @ ''-'')) # tr @ [Rm tmpDir]
          \<and> tr = snd (installTry w name (resolveGcsUrl url)
                 (case dir of Some d \<Rightarrow> d | None \<Rightarrow> path_join (CONFIG_DIR w) ''skills'')
                 (path_join (case dir of Some d \<Rightarrow> d | None \<Rightarrow> path_join (CONFIG_DIR w) ''skills'') name)
                 tmpDir tok)"
  using assms
  by (simp add: installSkillFromArchiveUrl_def Let_def split: prod.splits flow.splits)

lemma validateSkillName_accepts:
  "validateSkillName name = Inr () \<longleftrightarrow>
     name \<noteq> [] \<and> CHR ''/'' \<notin> set name \<and> backslash \<notin> set name \<and> name \<noteq> ''.''
       \<and> name \<noteq> ''..'' \<and> take 1 name \<noteq> ''.''"
  by (simp add: validateSkillName_def str_includes_char startsWith_char)

section \<open>The archive installer: the claims\<close>

text \<open>
  C3. A skill name that is empty, contains a slash or a backslash, is \<open>.\<close> or \<open>..\<close>, or
  starts with a dot makes \<open>installSkillFromArchiveUrl\<close> resolve to a failure without any
  call to a collaborator: the guarded fetch is not invoked (no call is made at all). The
  message is \<open>Invalid skill name: "name"\<close> for the first shape (empty, separator, \<open>.\<close>,
  \<open>..\<close>) and \<open>Skill name cannot start with a dot: "name"\<close> for a name that only
  starts with a dot; the two messages are never equal.
\<close>

theorem installSkillFromArchiveUrl_rejects_bad_name:
  assumes "name = [] \<or> CHR ''/'' \<in> set name \<or> backslash \<in> set name \<or> name = ''.''
             \<or> name = ''..'' \<or> take 1 name = ''.''"
  shows "installSkillFromArchiveUrl w name archive_url managed_dir auth_token =
           (Inr (SkillInstallFailure
              (if name = [] \<or> CHR ''/'' \<in> set name \<or> backslash \<in> set name \<or> name = ''.''
                    \<or> name = ''..''
               then ''Invalid skill name: '' @ [dquote] @ name @ [dquote]
               else ''Skill name cannot start with a dot: '' @ [dquote] @ name @ [dquote])), [])
         \<and> (\<forall>u h t. FetchWithSsrFGuard u h t
                \<notin> set (snd (installSkillFromArchiveUrl w name archive_url managed_dir auth_token)))
         \<and> ''Invalid skill name: '' @ [dquote] @ name @ [dquote]
               \<noteq> ''Skill name cannot start with a dot: '' @ [dquote] @ n2 @ [dquote]"
  using assms
  by (auto simp add: installSkillFromArchiveUrl_def validateSkillName_def str_includes_char
      startsWith_char)

theorem installSkillFromArchiveUrl_rejects_bad_name_witness:
  "installSkillFromArchiveUrl world_ok ''../escape'' ''https://example.com/skill.tar.gz''
       (Some ''/managed'') None =
     (Inr (SkillInstallFailure (''Invalid skill name: '' @ [dquote] @ ''../escape'' @ [dquote])), [])
   \<and> installSkillFromArchiveUrl world_ok ''.hidden'' ''https://example.com/skill.tar.gz''
       (Some ''/managed'') None =
     (Inr (SkillInstallFailure
        (''Skill name cannot start with a dot: '' @ [dquote] @ ''.hidden'' @ [dquote])), [])"
  using installSkillFromArchiveUrl_rejects_bad_name
          [of "''../escape''" world_ok "''https://example.com/skill.tar.gz''" "Some ''/managed''" None]
        installSkillFromArchiveUrl_rejects_bad_name
          [of "''.hidden''" world_ok "''https://example.com/skill.tar.gz''" "Some ''/managed''" None]
  by simp

text \<open>
  C4. When the download and the extraction succeed and \<open>SKILL.md\<close> is not in the staging
  directory, the installer resolves to the failure whose message names \<open>SKILL.md\<close> and
  says that the archive is not a valid skill package; the calls it made are exactly the
  ones listed: the paths written are joined to the temporary directory, and nothing is
  done to the target directory or to the managed directory; the last call removes the
  temporary directory. When the temporary directory is a path in normal form (as a path
  returned by \<open>fs.mkdtemp\<close> is), the paths are the temporary directory followed by
  \<open>/name.tar.gz\<close>, \<open>/extracted\<close> and \<open>/extracted/SKILL.md\<close>, and every path created,
  written or removed is the temporary directory or below it. The last call is the
  removal of the temporary directory in every run in which that directory was created.
\<close>

theorem installSkillFromArchiveUrl_missing_marker:
  assumes "name \<noteq> []" and "CHR ''/'' \<notin> set name" and "backslash \<notin> set name"
    and "name \<noteq> ''.''" and "name \<noteq> ''..''" and "take 1 name \<noteq> ''.''"
    and "mkdtemp_outcome w = Inr tmpDir"
    and "fetch_outcome w = Inr response" and "ok response"
    and "arrayBuffer_outcome w = None" and "writeFile_outcome w = None"
    and "release_outcome w = None"
    and "ensureDir_extract_outcome w = None" and "extractArchive_outcome w = None"
    and "stat_outcome w = Some e"
  shows "installSkillFromArchiveUrl w name archive_url managed_dir auth_token =
           (Inr (SkillInstallFailure
              ''Archive does not contain a SKILL.md file. Not a valid skill package.''),
            [Mkdtemp (path_join (os_tmpdir w) (''simpleclaw-skill-'' @ name @ ''-'')),
             FetchWithSsrFGuard (resolveGcsUrl archive_url) (bearer_headers auth_token) 60000,
             ArrayBuffer,
             WriteFile (path_join tmpDir (name @ ''.tar.gz'')),
             Release,
             EnsureDir (path_join tmpDir ''extracted''),
             ExtractArchive (path_join tmpDir (name @ ''.tar.gz''))
               (path_join tmpDir ''extracted'') 30000,
             Stat (path_join (path_join tmpDir ''extracted'') ''SKILL.md''),
             Rm tmpDir])
         \<and> str_includes ''Archive does not contain a SKILL.md file. Not a valid skill package.''
               ''SKILL.md''
         \<and> str_includes ''Archive does not contain a SKILL.md file. Not a valid skill package.''
               ''Not a valid skill package''
         \<and> (in_normal_form tmpDir \<longrightarrow>
               path_join tmpDir (name @ ''.tar.gz'') = tmpDir @ ''/'' @ name @ ''.tar.gz''
             \<and> path_join tmpDir ''extracted'' = tmpDir @ ''/extracted''
             \<and> path_join (path_join tmpDir ''extracted'') ''SKILL.md''
                   = tmpDir @ ''/extracted/SKILL.md''
             \<and> (\<forall>ev \<in> set (snd (installSkillFromArchiveUrl w name archive_url managed_dir
                                     auth_token)).
                   \<forall>p \<in> set (mutated_paths ev). inside tmpDir p))
         \<and> (\<forall>w'. mkdtemp_outcome w' = Inr tmpDir \<longrightarrow>
               last (snd (installSkillFromArchiveUrl w' name archive_url managed_dir auth_token))
                 = Rm tmpDir)"
proof -
  have v: "validateSkillName name = Inr ()"
    using assms(1-6) by (simp add: validateSkillName_accepts)
  have run: "installSkillFromArchiveUrl w name archive_url managed_dir auth_token =
           (Inr (SkillInstallFailure
              ''Archive does not contain a SKILL.md file. Not a valid skill package.''),
            [Mkdtemp (path_join (os_tmpdir w) (''simpleclaw-skill-'' @ name @ ''-'')),
             FetchWithSsrFGuard (resolveGcsUrl archive_url) (bearer_headers auth_token) 60000,
             ArrayBuffer,
             WriteFile (path_join tmpDir (name @ ''.tar.gz'')),
             Release,
             EnsureDir (path_join tmpDir ''extracted''),
             ExtractArchive (path_join tmpDir (name @ ''.tar.gz''))
               (path_join tmpDir ''extracted'') 30000,
             Stat (path_join (path_join tmpDir ''extracted'') ''SKILL.md''),
             Rm tmpDir])"
    using v assms(7-15)
    by (simp add: installSkillFromArchiveUrl_def installTry_def extractAndPlace_def Let_def
        downloadBody_def finally_release_def checkSkillMd_def call_def
        DOWNLOAD_TIMEOUT_MS_def EXTRACT_TIMEOUT_MS_def)
  have m1: "str_includes ''Archive does not contain a SKILL.md file. Not a valid skill package.''
               ''SKILL.md''"
    by simp
  have m2: "str_includes ''Archive does not contain a SKILL.md file. Not a valid skill package.''
               ''Not a valid skill package''"
    by simp
  have nf: "in_normal_form tmpDir \<longrightarrow>
               path_join tmpDir (name @ ''.tar.gz'') = tmpDir @ ''/'' @ name @ ''.tar.gz''
             \<and> path_join tmpDir ''extracted'' = tmpDir @ ''/extracted''
             \<and> path_join (path_join tmpDir ''extracted'') ''SKILL.md''
                   = tmpDir @ ''/extracted/SKILL.md''
             \<and> (\<forall>ev \<in> set (snd (installSkillFromArchiveUrl w name archive_url managed_dir
                                     auth_token)).
                   \<forall>p \<in> set (mutated_paths ev). inside tmpDir p)"
  proof
    assume n: "in_normal_form tmpDir"
    have a1: "name @ ''.tar.gz'' \<noteq> ''.''"
    proof
      assume "name @ ''.tar.gz'' = ''.''"
      then have "length (name @ ''.tar.gz'') = length ''.''" by simp
      then show False by simp
    qed
    have a2: "name @ ''.tar.gz'' \<noteq> ''..''"
    proof
      assume "name @ ''.tar.gz'' = ''..''"
      then have "length (name @ ''.tar.gz'') = length ''..''" by simp
      then show False by simp
    qed
    from a1 a2 assms(1,2) have pa: "plain_segment (name @ ''.tar.gz'')"
      by (simp add: plain_segment_def)
    have pe: "plain_segment ''extracted''" by (simp add: plain_segment_def)
    have ps: "plain_segment ''SKILL.md''" by (simp add: plain_segment_def)
    have j1: "path_join tmpDir (name @ ''.tar.gz'') = tmpDir @ ''/'' @ name @ ''.tar.gz''"
      using path_join_normal [OF n pa] by simp
    have j2: "path_join tmpDir ''extracted'' = tmpDir @ ''/extracted''"
      using path_join_normal [OF n pe] by simp
    have j3: "path_join (path_join tmpDir ''extracted'') ''SKILL.md''
                = tmpDir @ ''/extracted/SKILL.md''"
      using path_join_normal [OF in_normal_form_child [OF n pe] ps] j2 by simp
    have sw: "\<And>x. startsWith (tmpDir @ ''/'' @ x) (tmpDir @ ''/'')"
      by (simp add: startsWith_prefix)
    have "\<forall>ev \<in> set (snd (installSkillFromArchiveUrl w name archive_url managed_dir
                                     auth_token)).
                   \<forall>p \<in> set (mutated_paths ev). inside tmpDir p"
      unfolding run j1 j2 using sw [of "name @ ''.tar.gz''"] sw [of "''extracted''"]
      by (simp add: inside_def)
    with j1 j2 j3 show "path_join tmpDir (name @ ''.tar.gz'') = tmpDir @ ''/'' @ name @ ''.tar.gz''
             \<and> path_join tmpDir ''extracted'' = tmpDir @ ''/extracted''
             \<and> path_join (path_join tmpDir ''extracted'') ''SKILL.md''
                   = tmpDir @ ''/extracted/SKILL.md''
             \<and> (\<forall>ev \<in> set (snd (installSkillFromArchiveUrl w name archive_url managed_dir
                                     auth_token)).
                   \<forall>p \<in> set (mutated_paths ev). inside tmpDir p)"
      by blast
  qed
  have fin: "\<forall>w'. mkdtemp_outcome w' = Inr tmpDir \<longrightarrow>
               last (snd (installSkillFromArchiveUrl w' name archive_url managed_dir auth_token))
                 = Rm tmpDir"
  proof (intro allI impI)
    fix w' :: install_world assume "mkdtemp_outcome w' = Inr tmpDir"
    from install_trace [OF v this, of archive_url managed_dir auth_token]
    show "last (snd (installSkillFromArchiveUrl w' name archive_url managed_dir auth_token))
            = Rm tmpDir"
      by auto
  qed
  from run m1 m2 nf fin show ?thesis by blast
qed

theorem installSkillFromArchiveUrl_missing_marker_witness:
  "installSkillFromArchiveUrl world_no_marker ''good-skill'' ''https://example.com/skill.tar.gz''
       (Some ''/managed'') None =
     (Inr (SkillInstallFailure
         ''Archive does not contain a SKILL.md file. Not a valid skill package.''),
      [Mkdtemp ''/tmp/simpleclaw-skill-good-skill-'',
       FetchWithSsrFGuard ''https://example.com/skill.tar.gz'' [] 60000,
       ArrayBuffer,
       WriteFile ''/tmp/simpleclaw-skill-good-skill-Ab12Cd/good-skill.tar.gz'',
       Release,
       EnsureDir ''/tmp/simpleclaw-skill-good-skill-Ab12Cd/extracted'',
       ExtractArchive ''/tmp/simpleclaw-skill-good-skill-Ab12Cd/good-skill.tar.gz''
         ''/tmp/simpleclaw-skill-good-skill-Ab12Cd/extracted'' 30000,
       Stat ''/tmp/simpleclaw-skill-good-skill-Ab12Cd/extracted/SKILL.md'',
       Rm ''/tmp/simpleclaw-skill-good-skill-Ab12Cd''])
   \<and> in_normal_form ''/tmp/simpleclaw-skill-good-skill-Ab12Cd''
   \<and> last (snd (installSkillFromArchiveUrl world_404 ''good-skill''
         ''https://example.com/skill.tar.gz'' (Some ''/managed'') None))
       = Rm ''/tmp/simpleclaw-skill-good-skill-Ab12Cd''"
proof -
  have n: "in_normal_form ''/tmp/simpleclaw-skill-good-skill-Ab12Cd''"
    by (simp add: in_normal_form_def path_eval)
  have pre: "path_join ''/tmp'' ''simpleclaw-skill-good-skill-'' = ''/tmp/simpleclaw-skill-good-skill-''"
    by (simp add: path_eval)
  have j1: "path_join ''/tmp/simpleclaw-skill-good-skill-Ab12Cd'' ''good-skill.tar.gz''
              = ''/tmp/simpleclaw-skill-good-skill-Ab12Cd/good-skill.tar.gz''"
    by (simp add: path_eval)
  have j2: "path_join ''/tmp/simpleclaw-skill-good-skill-Ab12Cd'' ''extracted''
              = ''/tmp/simpleclaw-skill-good-skill-Ab12Cd/extracted''"
    by (simp add: path_eval)
  have j3: "path_join ''/tmp/simpleclaw-skill-good-skill-Ab12Cd/extracted'' ''SKILL.md''
              = ''/tmp/simpleclaw-skill-good-skill-Ab12Cd/extracted/SKILL.md''"
    by (simp add: path_eval)
  from installSkillFromArchiveUrl_missing_marker
          [of "''good-skill''" world_no_marker "''/tmp/simpleclaw-skill-good-skill-Ab12Cd''"
              "\<lparr>ok = True, status = 200, statusText = ''OK''\<rparr>"
              "''ENOENT: no such file or directory''"
              "''https://example.com/skill.tar.gz''" "Some ''/managed''" None]
       n pre
  show ?thesis
    by (simp add: world_no_marker_def world_ok_def world_404_def resolveGcsUrl_def
        bearer_headers_def truthy_def j1 j2 j3)
qed

text \<open>
  C9. In every run in which the guarded fetch resolves, \<open>release\<close> is called exactly once:
  whatever the status of the response, and whether reading the body, writing the archive
  or any later step succeeds or throws.
\<close>

theorem installSkillFromArchiveUrl_release_once:
  assumes "name \<noteq> []" and "CHR ''/'' \<notin> set name" and "backslash \<notin> set name"
    and "name \<noteq> ''.''" and "name \<noteq> ''..''" and "take 1 name \<noteq> ''.''"
    and "mkdtemp_outcome w = Inr tmpDir"
    and "fetch_outcome w = Inr response"
  shows "count_list (snd (installSkillFromArchiveUrl w name archive_url managed_dir auth_token))
           Release = 1"
proof -
  have v: "validateSkillName name = Inr ()"
    using assms(1-6) by (simp add: validateSkillName_accepts)
  from install_trace [OF v assms(7), of archive_url managed_dir auth_token]
  show ?thesis
    using installTry_release_once [OF assms(8)] by auto
qed

theorem installSkillFromArchiveUrl_release_once_witness:
  "count_list (snd (installSkillFromArchiveUrl world_ok ''good-skill''
       ''gs://bucket/skills/good-skill-1.0.0.tar.gz'' (Some ''/managed'') None)) Release = 1
   \<and> count_list (snd (installSkillFromArchiveUrl world_404 ''good-skill''
       ''gs://bucket/skills/good-skill-1.0.0.tar.gz'' (Some ''/managed'') None)) Release = 1
   \<and> count_list (snd (installSkillFromArchiveUrl (world_ok\<lparr>writeFile_outcome := Some ''ENOSPC''\<rparr>)
       ''good-skill'' ''gs://bucket/skills/good-skill-1.0.0.tar.gz'' (Some ''/managed'') None))
         Release = 1"
  using installSkillFromArchiveUrl_release_once
          [of "''good-skill''" world_ok "''/tmp/simpleclaw-skill-good-skill-Ab12Cd''"
              "\<lparr>ok = True, status = 200, statusText = ''OK''\<rparr>"
              "''gs://bucket/skills/good-skill-1.0.0.tar.gz''" "Some ''/managed''" None]
        installSkillFromArchiveUrl_release_once
          [of "''good-skill''" world_404 "''/tmp/simpleclaw-skill-good-skill-Ab12Cd''"
              "\<lparr>ok = False, status = 404, statusText = ''Not Found''\<rparr>"
              "''gs://bucket/skills/good-skill-1.0.0.tar.gz''" "Some ''/managed''" None]
        installSkillFromArchiveUrl_release_once
          [of "''good-skill''" "world_ok\<lparr>writeFile_outcome := Some ''ENOSPC''\<rparr>"
              "''/tmp/simpleclaw-skill-good-skill-Ab12Cd''"
              "\<lparr>ok = True, status = 200, statusText = ''OK''\<rparr>"
              "''gs://bucket/skills/good-skill-1.0.0.tar.gz''" "Some ''/managed''" None]
  by (simp add: world_ok_def world_404_def)

text \<open>
  C10. Every name outside the rejected set (not empty, no slash, no backslash, not \<open>.\<close>,
  not \<open>..\<close>, no leading dot) passes \<open>validateSkillName\<close>, whatever else it contains; and
  whenever the installer then succeeds, the skill name of the result is that name and the
  target directory is \<open>path.join\<close> of the managed skills directory and the name: a path
  whose last component is the name, unchanged (the path is the name itself or ends in a
  slash and the name), and, when the managed directory is in normal form, that directory,
  a slash and the name. It is the directory that the installer removed and copied the
  staged files to.
\<close>

theorem validateSkillName_accepts_rest:
  assumes "name \<noteq> []" and "CHR ''/'' \<notin> set name" and "backslash \<notin> set name"
    and "name \<noteq> ''.''" and "name \<noteq> ''..''" and "take 1 name \<noteq> ''.''"
  shows "validateSkillName name = Inr ()
     \<and> (\<forall>w archive_url managed_dir auth_token n t.
          fst (installSkillFromArchiveUrl w name archive_url managed_dir auth_token)
             = Inr (SkillInstallSuccess n t)
          \<longrightarrow> n = name
            \<and> t = path_join
                    (case managed_dir of Some d \<Rightarrow> d | None \<Rightarrow> path_join (CONFIG_DIR w) ''skills'')
                    name
            \<and> (\<exists>pre. t = pre @ name \<and> (pre = [] \<or> last pre = CHR ''/''))
            \<and> (in_normal_form
                  (case managed_dir of Some d \<Rightarrow> d | None \<Rightarrow> path_join (CONFIG_DIR w) ''skills'')
                \<longrightarrow> t = (case managed_dir of Some d \<Rightarrow> d
                                            | None \<Rightarrow> path_join (CONFIG_DIR w) ''skills'')
                          @ ''/'' @ name)
            \<and> Rm t \<in> set (snd (installSkillFromArchiveUrl w name archive_url managed_dir auth_token))
            \<and> (\<exists>src. Cp src t \<in> set (snd (installSkillFromArchiveUrl w name archive_url managed_dir auth_token))))"
proof -
  have v: "validateSkillName name = Inr ()"
    using assms by (simp add: validateSkillName_accepts)
  have pn: "plain_segment name"
    using assms by (simp add: plain_segment_def)
  have tgt: "fst (installSkillFromArchiveUrl w name archive_url managed_dir auth_token)
             = Inr (SkillInstallSuccess n t)
          \<Longrightarrow> n = name
            \<and> t = path_join
                    (case managed_dir of Some d \<Rightarrow> d | None \<Rightarrow> path_join (CONFIG_DIR w) ''skills'')
                    name
            \<and> Rm t \<in> set (snd (installSkillFromArchiveUrl w name archive_url managed_dir auth_token))
            \<and> (\<exists>src. Cp src t \<in> set (snd (installSkillFromArchiveUrl w name archive_url managed_dir auth_token)))"
    for w archive_url managed_dir auth_token n t
    using v
    apply (simp add: installSkillFromArchiveUrl_def Let_def split: sum.splits prod.splits flow.splits)
    apply (auto simp add: installTry_def extractAndPlace_def Let_def
        downloadBody_def finally_release_def checkSkillMd_def call_def
        split: sum.splits option.splits if_splits)
    done
  have "fst (installSkillFromArchiveUrl w name archive_url managed_dir auth_token)
             = Inr (SkillInstallSuccess n t)
          \<Longrightarrow> n = name
            \<and> t = path_join
                    (case managed_dir of Some d \<Rightarrow> d | None \<Rightarrow> path_join (CONFIG_DIR w) ''skills'')
                    name
            \<and> (\<exists>pre. t = pre @ name \<and> (pre = [] \<or> last pre = CHR ''/''))
            \<and> (in_normal_form
                  (case managed_dir of Some d \<Rightarrow> d | None \<Rightarrow> path_join (CONFIG_DIR w) ''skills'')
                \<longrightarrow> t = (case managed_dir of Some d \<Rightarrow> d
                                            | None \<Rightarrow> path_join (CONFIG_DIR w) ''skills'')
                          @ ''/'' @ name)
            \<and> Rm t \<in> set (snd (installSkillFromArchiveUrl w name archive_url managed_dir auth_token))
            \<and> (\<exists>src. Cp src t \<in> set (snd (installSkillFromArchiveUrl w name archive_url managed_dir auth_token)))"
    for w archive_url managed_dir auth_token n t
    using tgt [of w archive_url managed_dir auth_token n t]
      path_join_last_component [OF pn,
        of "case managed_dir of Some d \<Rightarrow> d | None \<Rightarrow> path_join (CONFIG_DIR w) ''skills''"]
      path_join_normal [OF _ pn,
        of "case managed_dir of Some d \<Rightarrow> d | None \<Rightarrow> path_join (CONFIG_DIR w) ''skills''"]
    by blast
  with v show ?thesis by blast
qed

theorem validateSkillName_accepts_rest_witness:
  "validateSkillName ''a..b c'' = Inr ()
   \<and> fst (installSkillFromArchiveUrl world_ok ''a..b c'' ''https://example.com/skill.tar.gz''
            (Some ''/managed'') None) = Inr (SkillInstallSuccess ''a..b c'' ''/managed/a..b c'')
   \<and> fst (installSkillFromArchiveUrl world_ok ''a..b c'' ''https://example.com/skill.tar.gz''
            (Some ''/managed/'') None) = Inr (SkillInstallSuccess ''a..b c'' ''/managed/a..b c'')
   \<and> fst (installSkillFromArchiveUrl world_ok ''a..b c'' ''https://example.com/skill.tar.gz''
            (Some []) None) = Inr (SkillInstallSuccess ''a..b c'' ''a..b c'')
   \<and> Rm ''/managed/a..b c'' \<in> set (snd (installSkillFromArchiveUrl world_ok ''a..b c''
            ''https://example.com/skill.tar.gz'' (Some ''/managed'') None))"
proof -
  have run: "fst (installSkillFromArchiveUrl world_ok ''a..b c'' ''https://example.com/skill.tar.gz''
            (Some ''/managed'') None) = Inr (SkillInstallSuccess ''a..b c'' ''/managed/a..b c'')"
    by (simp add: installSkillFromArchiveUrl_def validateSkillName_def installTry_def
        extractAndPlace_def Let_def downloadBody_def finally_release_def checkSkillMd_def
        call_def path_eval world_ok_def)
  have run2: "fst (installSkillFromArchiveUrl world_ok ''a..b c'' ''https://example.com/skill.tar.gz''
            (Some ''/managed/'') None) = Inr (SkillInstallSuccess ''a..b c'' ''/managed/a..b c'')"
    by (simp add: installSkillFromArchiveUrl_def validateSkillName_def installTry_def
        extractAndPlace_def Let_def downloadBody_def finally_release_def checkSkillMd_def
        call_def path_eval world_ok_def)
  have run3: "fst (installSkillFromArchiveUrl world_ok ''a..b c'' ''https://example.com/skill.tar.gz''
            (Some []) None) = Inr (SkillInstallSuccess ''a..b c'' ''a..b c'')"
    by (simp add: installSkillFromArchiveUrl_def validateSkillName_def installTry_def
        extractAndPlace_def Let_def downloadBody_def finally_release_def checkSkillMd_def
        call_def path_eval world_ok_def)
  have j: "path_join ''/managed'' ''a..b c'' = ''/managed/a..b c''"
    by (simp add: path_eval)
  from validateSkillName_accepts_rest [of "''a..b c''"] have
    "validateSkillName ''a..b c'' = Inr ()"
    and "\<And>n t. fst (installSkillFromArchiveUrl world_ok ''a..b c''
                     ''https://example.com/skill.tar.gz'' (Some ''/managed'') None)
                  = Inr (SkillInstallSuccess n t)
          \<Longrightarrow> Rm t \<in> set (snd (installSkillFromArchiveUrl world_ok ''a..b c''
                     ''https://example.com/skill.tar.gz'' (Some ''/managed'') None))"
    by simp_all
  with run run2 run3 show ?thesis by blast
qed

section \<open>The install ledger: the claims\<close>

lemma obj_get_None_iff: "obj_get ob k = None \<longleftrightarrow> k \<notin> set (obj_keys ob)"
  by (simp add: obj_get_def obj_keys_def map_of_eq_None_iff)

lemma remove_after_record_fresh:
  assumes "obj_get (spread_installs cfg) k = None"
  shows "removeSkillInstall (recordSkillInstall now cfg k r) k =
         cfg\<lparr>skills := Some ((spread_skills (skills cfg))
           \<lparr>installs := (if spread_installs cfg = [] then None
                          else Some (spread_installs cfg))\<rparr>)\<rparr>"
proof -
  from assms have fresh: "k \<notin> set (obj_keys (spread_installs cfg))"
    by (simp add: obj_get_None_iff)
  have del: "obj_delete (spread_installs (recordSkillInstall now cfg k r)) k = spread_installs cfg"
    by (simp add: spread_installs_recordSkillInstall obj_delete_obj_set_fresh [OF fresh])
  have sk: "spread_skills (skills (recordSkillInstall now cfg k r)) =
      (spread_skills (skills cfg))
        \<lparr>installs := Some (spread_installs (recordSkillInstall now cfg k r))\<rparr>"
    by (simp add: recordSkillInstall_def spread_skills_def spread_installs_def)
  show ?thesis
    unfolding removeSkillInstall_def Let_def del sk
    by (simp add: recordSkillInstall_def obj_keys_def)
qed

text \<open>
  C1, as the code has it. For a configuration in which the key has no install record,
  recording and then removing the key gives the configuration with its \<open>skills\<close> sub-tree
  set to \<open>{ ...cfg.skills, installs }\<close>, where \<open>installs\<close> is the former map when that was
  not empty and is left out (\<open>undefined\<close>) when no key remains. The result is the
  configuration itself exactly when it already had a \<open>skills\<close> sub-tree whose \<open>installs\<close>
  was not an empty object; from a configuration without a \<open>skills\<close> sub-tree the result
  has a \<open>skills\<close> object (without \<open>installs\<close>).
\<close>

theorem removeSkillInstall_recordSkillInstall:
  assumes "obj_get (spread_installs cfg) k = None"
  shows "removeSkillInstall (recordSkillInstall now cfg k r) k =
           cfg\<lparr>skills := Some ((spread_skills (skills cfg))
             \<lparr>installs := (if spread_installs cfg = [] then None
                            else Some (spread_installs cfg))\<rparr>)\<rparr>
         \<and> ((removeSkillInstall (recordSkillInstall now cfg k r) k = cfg) =
              (case skills cfg of None \<Rightarrow> False | Some sk \<Rightarrow> installs sk \<noteq> Some []))"
proof -
  note eq = remove_after_record_fresh [OF assms, of now r]
  have "(cfg\<lparr>skills := Some ((spread_skills (skills cfg))
             \<lparr>installs := (if spread_installs cfg = [] then None
                            else Some (spread_installs cfg))\<rparr>)\<rparr> = cfg) =
        (case skills cfg of None \<Rightarrow> False | Some sk \<Rightarrow> installs sk \<noteq> Some [])"
  proof (cases cfg)
    case (fields p sk other)
    show ?thesis
    proof (cases sk)
      case None
      with fields show ?thesis by (simp add: spread_skills_def spread_installs_def)
    next
      case (Some s)
      obtain ins oth where s: "s = \<lparr>installs = ins, skills_other = oth\<rparr>"
        by (cases s) auto
      with fields Some show ?thesis
        by (cases ins) (auto simp add: spread_skills_def spread_installs_def)
    qed
  qed
  with eq show ?thesis by simp
qed

theorem removeSkillInstall_recordSkillInstall_witness:
  "obj_get (spread_installs config_with_other) ''my-skill'' = None
   \<and> removeSkillInstall
       (recordSkillInstall ''2026-02-25T00:00:00.000Z'' config_with_other ''my-skill''
          my_skill_record) ''my-skill'' = config_with_other"
  using removeSkillInstall_recordSkillInstall
          [of config_with_other "''my-skill''" "''2026-02-25T00:00:00.000Z''" my_skill_record]
  by (simp add: config_with_other_def spread_installs_def spread_skills_def obj_get_def)

text \<open>
  C1, as the claim states it, fails for the configuration without a \<open>skills\<close> sub-tree:
  after the round trip the configuration has a \<open>skills\<close> object.
\<close>

theorem removeSkillInstall_recordSkillInstall_counterexample:
  "obj_get (spread_installs empty_config) ''my-skill'' = None
   \<and> removeSkillInstall
       (recordSkillInstall ''2026-02-25T00:00:00.000Z'' empty_config ''my-skill''
          my_skill_record) ''my-skill''
     = \<lparr>plugins = None, skills = Some \<lparr>installs = None, skills_other = []\<rparr>, config_other = []\<rparr>
   \<and> removeSkillInstall
       (recordSkillInstall ''2026-02-25T00:00:00.000Z'' empty_config ''my-skill''
          my_skill_record) ''my-skill'' \<noteq> empty_config"
  by (simp add: removeSkillInstall_def recordSkillInstall_def empty_config_def
      my_skill_record_def spread_installs_def spread_skills_def obj_delete_def obj_keys_def
      obj_get_def)

text \<open>
  C2, as the code has it. Recording the same record a second time gives what recording
  it once at the time of the second call gives: the stored \<open>installedAt\<close> is the one the
  record carries, and the time of the latest call when it carries none. So the second
  call changes nothing exactly when the record carries an \<open>installedAt\<close> or both calls
  happen at the same time.
\<close>

theorem recordSkillInstall_twice:
  "recordSkillInstall t2 (recordSkillInstall t1 cfg k r) k r = recordSkillInstall t2 cfg k r
   \<and> obj_get (spread_installs (recordSkillInstall t2 (recordSkillInstall t1 cfg k r) k r)) k
       = Some (r\<lparr>installedAt := Some (case installedAt r of Some t \<Rightarrow> t | None \<Rightarrow> t2)\<rparr>)
   \<and> ((recordSkillInstall t2 (recordSkillInstall t1 cfg k r) k r = recordSkillInstall t1 cfg k r)
        = (case installedAt r of Some t \<Rightarrow> True | None \<Rightarrow> t1 = t2))"
proof -
  have twice: "recordSkillInstall t2 (recordSkillInstall t1 cfg k r) k r
                 = recordSkillInstall t2 cfg k r"
    by (simp add: recordSkillInstall_def spread_installs_def spread_skills_def obj_set_obj_set
        split: option.splits)
  have stored: "\<And>t. obj_get (spread_installs (recordSkillInstall t cfg k r)) k
       = Some (r\<lparr>installedAt := Some (case installedAt r of Some t' \<Rightarrow> t' | None \<Rightarrow> t)\<rparr>)"
    by (simp add: spread_installs_recordSkillInstall obj_get_obj_set)
  have same: "(recordSkillInstall t2 cfg k r = recordSkillInstall t1 cfg k r)
        = (case installedAt r of Some t \<Rightarrow> True | None \<Rightarrow> t1 = t2)"
  proof (cases "installedAt r")
    case None
    show ?thesis
    proof
      assume "recordSkillInstall t2 cfg k r = recordSkillInstall t1 cfg k r"
      then have "obj_get (spread_installs (recordSkillInstall t2 cfg k r)) k
                   = obj_get (spread_installs (recordSkillInstall t1 cfg k r)) k"
        by simp
      with None have "r\<lparr>installedAt := Some t2\<rparr> = r\<lparr>installedAt := Some t1\<rparr>"
        by (simp add: stored)
      then have "installedAt (r\<lparr>installedAt := Some t2\<rparr>) = installedAt (r\<lparr>installedAt := Some t1\<rparr>)"
        by simp
      with None show "case installedAt r of Some t \<Rightarrow> True | None \<Rightarrow> t1 = t2"
        by simp
    next
      assume "case installedAt r of Some t \<Rightarrow> True | None \<Rightarrow> t1 = t2"
      with None show "recordSkillInstall t2 cfg k r = recordSkillInstall t1 cfg k r"
        by simp
    qed
  next
    case (Some t)
    then show ?thesis by (simp add: recordSkillInstall_def)
  qed
  from twice stored [of t2] same show ?thesis by simp
qed

text \<open>
  C2, as the claim states it, fails: a second call without \<open>installedAt\<close>, made later,
  replaces the time stored by the first.
\<close>

theorem recordSkillInstall_twice_counterexample:
  "installedAt my_skill_record = None
   \<and> obj_get (spread_installs (recordSkillInstall ''2026-01-01T00:00:00.000Z'' empty_config
        ''my-skill'' my_skill_record)) ''my-skill''
       = Some (my_skill_record\<lparr>installedAt := Some ''2026-01-01T00:00:00.000Z''\<rparr>)
   \<and> obj_get (spread_installs (recordSkillInstall ''2026-02-25T00:00:00.000Z''
        (recordSkillInstall ''2026-01-01T00:00:00.000Z'' empty_config ''my-skill''
           my_skill_record) ''my-skill'' my_skill_record)) ''my-skill''
       = Some (my_skill_record\<lparr>installedAt := Some ''2026-02-25T00:00:00.000Z''\<rparr>)
   \<and> recordSkillInstall ''2026-02-25T00:00:00.000Z''
        (recordSkillInstall ''2026-01-01T00:00:00.000Z'' empty_config ''my-skill''
           my_skill_record) ''my-skill'' my_skill_record
       \<noteq> recordSkillInstall ''2026-01-01T00:00:00.000Z'' empty_config ''my-skill''
           my_skill_record"
  by (simp add: recordSkillInstall_def empty_config_def my_skill_record_def spread_installs_def
      spread_skills_def obj_get_def)

section \<open>The catalog client: the claims\<close>

text \<open>
  C6, as the code has it. When the response is a success and its body parses,
  \<open>fetchCatalog\<close> rejects with a message that starts with \<open>Invalid catalog:\<close> every body
  that is not an object, whose \<open>version\<close> is not a number, or whose \<open>plugins\<close> or
  \<open>skills\<close> is not an array, and resolves to the body otherwise. For an object without a
  numeric \<open>version\<close> the message is \<open>Invalid catalog: missing 'version' field\<close>; for one
  with a numeric \<open>version\<close> and no \<open>plugins\<close> array it is
  \<open>Invalid catalog: missing 'plugins' array\<close>, which contains \<open>plugins\<close>.
\<close>

theorem fetchCatalog_validates:
  assumes "fetch (resolveGcsUrl catalog_url) (bearer_headers auth_token) 15000 = Inr res"
    and "ok res" and "json_outcome res = Inr body"
  shows "fetchCatalog fetch catalog_url auth_token =
           (if not_an_object body then Inl ''Invalid catalog: expected an object''
            else if \<not> is_number (json_prop body ''version'')
              then Inl (''Invalid catalog: missing '' @ [squote] @ ''version'' @ [squote] @ '' field'')
            else if \<not> is_array (json_prop body ''plugins'')
              then Inl (''Invalid catalog: missing '' @ [squote] @ ''plugins'' @ [squote] @ '' array'')
            else if \<not> is_array (json_prop body ''skills'')
              then Inl (''Invalid catalog: missing '' @ [squote] @ ''skills'' @ [squote] @ '' array'')
            else Inr body)
         \<and> (not_an_object body \<or> \<not> is_number (json_prop body ''version'')
               \<or> \<not> is_array (json_prop body ''plugins'') \<or> \<not> is_array (json_prop body ''skills'')
             \<longrightarrow> (\<exists>msg. fetchCatalog fetch catalog_url auth_token = Inl msg
                         \<and> startsWith msg ''Invalid catalog: ''))
         \<and> str_includes (''Invalid catalog: missing '' @ [squote] @ ''version'' @ [squote] @ '' field'')
               ''version''
         \<and> str_includes (''Invalid catalog: missing '' @ [squote] @ ''plugins'' @ [squote] @ '' array'')
               ''plugins''"
  using assms
  by (simp add: fetchCatalog_def validateCatalog_def FETCH_TIMEOUT_MS_def Let_def)

theorem fetchCatalog_validates_witness:
  "fetchCatalog (fetch_ok_with body_without_version) ''https://example.com/catalog.json'' None
     = Inl (''Invalid catalog: missing '' @ [squote] @ ''version'' @ [squote] @ '' field'')
   \<and> fetchCatalog (fetch_ok_with body_without_collection) ''https://example.com/catalog.json'' None
     = Inl (''Invalid catalog: missing '' @ [squote] @ ''plugins'' @ [squote] @ '' array'')"
  using fetchCatalog_validates
          [of "fetch_ok_with body_without_version" "''https://example.com/catalog.json''" None
              "\<lparr>ok = True, status = 200, statusText = ''OK'', json_outcome = Inr body_without_version\<rparr>"
              body_without_version]
        fetchCatalog_validates
          [of "fetch_ok_with body_without_collection" "''https://example.com/catalog.json''" None
              "\<lparr>ok = True, status = 200, statusText = ''OK'', json_outcome = Inr body_without_collection\<rparr>"
              body_without_collection]
  by (simp add: fetch_ok_with_def body_without_version_def body_without_collection_def
      not_an_object_def is_number_def is_array_def json_prop_def)

text \<open>
  C6, as the claim states it, fails: for the body \<open>{ version: 1, skills: [] }\<close>, which has
  no collection of extensions under any name, the message is
  \<open>Invalid catalog: missing 'plugins' array\<close>; it does not contain \<open>extensions\<close>.
\<close>

theorem fetchCatalog_validates_counterexample:
  "json_prop body_without_collection ''extensions'' = None
   \<and> json_prop body_without_collection ''plugins'' = None
   \<and> fetchCatalog (fetch_ok_with body_without_collection) ''https://example.com/catalog.json'' None
       = Inl (''Invalid catalog: missing '' @ [squote] @ ''plugins'' @ [squote] @ '' array'')
   \<and> \<not> str_includes (''Invalid catalog: missing '' @ [squote] @ ''plugins'' @ [squote] @ '' array'')
         ''extensions''"
  by (simp add: fetchCatalog_def validateCatalog_def fetch_ok_with_def body_without_collection_def
      not_an_object_def is_number_def is_array_def json_prop_def Let_def)

lemma tags_some_iff:
  "tags_some tags (toLowerCase q) \<longleftrightarrow>
     (\<exists>t \<in> (case tags of None \<Rightarrow> {} | Some ts \<Rightarrow> set ts). contains_ci t q)"
  by (cases tags) (auto simp: tags_some_def contains_ci_def str_includes_sublist list_ex_iff)

lemma plugin_filter_iff:
  "(str_includes (toLowerCase (plugin_id p)) (toLowerCase q) \<or>
    str_includes (toLowerCase (plugin_name p)) (toLowerCase q) \<or>
    str_includes (toLowerCase (plugin_description p)) (toLowerCase q) \<or>
    tags_some (plugin_tags p) (toLowerCase q)) \<longleftrightarrow> spec_extension_matches p q"
  unfolding tags_some_iff spec_extension_matches_def
  by (auto simp: contains_ci_def str_includes_sublist)

lemma skill_filter_iff:
  "(str_includes (toLowerCase (skill_name s)) (toLowerCase q) \<or>
    str_includes (toLowerCase (skill_description s)) (toLowerCase q) \<or>
    tags_some (skill_tags s) (toLowerCase q)) \<longleftrightarrow> spec_skill_matches s q"
  unfolding tags_some_iff spec_skill_matches_def
  by (auto simp: contains_ci_def str_includes_sublist)

lemma searchCatalog_filter:
  "searchCatalog catalog q =
     (filter (\<lambda>p. spec_extension_matches p q) (catalog_plugins catalog),
      filter (\<lambda>s. spec_skill_matches s q) (catalog_skills catalog))"
  by (simp add: searchCatalog_def Let_def plugin_filter_iff skill_filter_iff)

lemma spec_extension_matches_empty: "spec_extension_matches p []"
  by (auto simp add: spec_extension_matches_def contains_ci_def toLowerCase_def)

lemma spec_skill_matches_empty: "spec_skill_matches s []"
  by (auto simp add: spec_skill_matches_def contains_ci_def toLowerCase_def)

text \<open>
  C7. \<open>searchCatalog\<close> returns the plugin (extension) entries, in catalog order, whose id,
  name, description or some tag contains the query case-insensitively, and the skill
  entries whose name, description or some tag does; the empty query returns both
  collections whole; a query that no entry matches returns two empty lists.
\<close>

theorem searchCatalog_exact:
  "searchCatalog catalog query =
     (filter (\<lambda>p. spec_extension_matches p query) (catalog_plugins catalog),
      filter (\<lambda>s. spec_skill_matches s query) (catalog_skills catalog))
   \<and> searchCatalog catalog [] = (catalog_plugins catalog, catalog_skills catalog)
   \<and> ((\<forall>p \<in> set (catalog_plugins catalog). \<not> spec_extension_matches p query)
        \<and> (\<forall>s \<in> set (catalog_skills catalog). \<not> spec_skill_matches s query)
       \<longrightarrow> searchCatalog catalog query = ([], []))"
  by (simp add: searchCatalog_filter spec_extension_matches_empty spec_skill_matches_empty)

theorem searchCatalog_exact_witness:
  "searchCatalog MOCK_CATALOG ''NONEXISTENT-XYZ'' = ([], [])
   \<and> map plugin_id (fst (searchCatalog MOCK_CATALOG ''MEMORY'')) = [''memory-core'']
   \<and> map skill_name (snd (searchCatalog MOCK_CATALOG ''Automation'')) = [''runbook'']"
proof -
  have a: "\<forall>p \<in> set (catalog_plugins MOCK_CATALOG). \<not> spec_extension_matches p ''NONEXISTENT-XYZ''"
    unfolding plugin_filter_iff [symmetric]
    by (simp add: MOCK_CATALOG_def toLowerCase_def lower_char_def tags_some_def)
  have b: "\<forall>s \<in> set (catalog_skills MOCK_CATALOG). \<not> spec_skill_matches s ''NONEXISTENT-XYZ''"
    unfolding skill_filter_iff [symmetric]
    by (simp add: MOCK_CATALOG_def toLowerCase_def lower_char_def tags_some_def)
  have c: "map plugin_id (fst (searchCatalog MOCK_CATALOG ''MEMORY'')) = [''memory-core'']"
    by (simp add: searchCatalog_def Let_def MOCK_CATALOG_def toLowerCase_def lower_char_def
        tags_some_def)
  have d: "map skill_name (snd (searchCatalog MOCK_CATALOG ''Automation'')) = [''runbook'']"
    by (simp add: searchCatalog_def Let_def MOCK_CATALOG_def toLowerCase_def lower_char_def
        tags_some_def)
  from searchCatalog_exact [of MOCK_CATALOG "''NONEXISTENT-XYZ''"] a b c d
  show ?thesis by blast
qed

section \<open>The credential resolver: the claim\<close>

lemma fetchMetadataToken_eq:
  "fetchMetadataToken w =
     Inr (case metadata_fetch w
                 ''http://metadata.google.internal/computeMetadata/v1/instance/service-accounts/default/token''
                 [(''Metadata-Flavor'', ''Google'')] 3000 of
            Inl e \<Rightarrow> None
          | Inr res \<Rightarrow>
              if metadata_ok res
              then (case metadata_json res of
                      Inl e \<Rightarrow> None
                    | Inr body \<Rightarrow>
                        (case access_token body of
                           None \<Rightarrow> None
                         | Some t \<Rightarrow> if t = [] then None else Some t))
              else None)"
  by (simp add: fetchMetadataToken_def fetchMetadataToken_try_def or_null_def truthy_def
      GCE_METADATA_BASE_def METADATA_TOKEN_PATH_def METADATA_TIMEOUT_MS_def
      metadata_headers_def split: sum.splits option.splits)

lemma fetchGcloudCliToken_eq:
  "fetchGcloudCliToken w =
     Inr (case runCommandWithTimeout w [''gcloud'', ''auth'', ''print-access-token''] 10000 of
            Inl e \<Rightarrow> None
          | Inr result \<Rightarrow>
              if code result = Some 0 \<and> trim (stdout result) \<noteq> []
              then Some (trim (stdout result)) else None)"
  by (simp add: fetchGcloudCliToken_def fetchGcloudCliToken_try_def or_null_def truthy_def
      gcloud_argv_def split: sum.splits)

lemma resolveGarAuthToken_cases:
  assumes "fetchMetadataToken w = Inr m" and "fetchGcloudCliToken w = Inr c"
  shows "resolveGarAuthToken w =
     (let metadata_call =
            MetadataFetch
              ''http://metadata.google.internal/computeMetadata/v1/instance/service-accounts/default/token''
              [(''Metadata-Flavor'', ''Google'')] 3000;
          cli_call = RunCommand [''gcloud'', ''auth'', ''print-access-token''] 10000
      in if truthy m then (Inr m, [metadata_call])
         else if truthy c then (Inr c, [metadata_call, cli_call])
         else (Inr None, [metadata_call, cli_call]))"
  using assms
  by (simp add: resolveGarAuthToken_def Let_def GCE_METADATA_BASE_def METADATA_TOKEN_PATH_def
      METADATA_TIMEOUT_MS_def metadata_headers_def gcloud_argv_def)

text \<open>
  C8. \<open>resolveGarAuthToken\<close> never rejects. It first asks the metadata endpoint (with the
  header \<open>Metadata-Flavor: Google\<close> and a timeout of 3000 ms); a thrown error, a status
  that is not a success, a body that does not parse and an empty or missing token all
  count as no token. Only then it runs \<open>gcloud auth print-access-token\<close> (timeout
  10000 ms), where a thrown error, an exit code other than 0 and an output that is empty
  after trimming count as no token. It resolves to the first token found, which is not
  empty, and to \<open>null\<close> when there is none.
\<close>

theorem resolveGarAuthToken_total:
  "resolveGarAuthToken w =
     (let metadata_call =
            MetadataFetch
              ''http://metadata.google.internal/computeMetadata/v1/instance/service-accounts/default/token''
              [(''Metadata-Flavor'', ''Google'')] 3000;
          cli_call = RunCommand [''gcloud'', ''auth'', ''print-access-token''] 10000;
          metadata_token =
            (case metadata_fetch w
                    ''http://metadata.google.internal/computeMetadata/v1/instance/service-accounts/default/token''
                    [(''Metadata-Flavor'', ''Google'')] 3000 of
               Inl e \<Rightarrow> None
             | Inr res \<Rightarrow>
                 if metadata_ok res
                 then (case metadata_json res of
                         Inl e \<Rightarrow> None
                       | Inr body \<Rightarrow>
                           (case access_token body of
                              None \<Rightarrow> None
                            | Some t \<Rightarrow> if t = [] then None else Some t))
                 else None);
          cli_token =
            (case runCommandWithTimeout w [''gcloud'', ''auth'', ''print-access-token''] 10000 of
               Inl e \<Rightarrow> None
             | Inr result \<Rightarrow>
                 if code result = Some 0 \<and> trim (stdout result) \<noteq> []
                 then Some (trim (stdout result)) else None)
      in case metadata_token of
           Some t \<Rightarrow> (Inr (Some t), [metadata_call])
         | None \<Rightarrow>
             (case cli_token of
                Some t \<Rightarrow> (Inr (Some t), [metadata_call, cli_call])
              | None \<Rightarrow> (Inr None, [metadata_call, cli_call])))
   \<and> (\<exists>t. fst (resolveGarAuthToken w) = Inr t)
   \<and> fst (resolveGarAuthToken w) \<noteq> Inr (Some [])"
proof -
  let ?m = "case metadata_fetch w
                 ''http://metadata.google.internal/computeMetadata/v1/instance/service-accounts/default/token''
                 [(''Metadata-Flavor'', ''Google'')] 3000 of
            Inl e \<Rightarrow> None
          | Inr res \<Rightarrow>
              if metadata_ok res
              then (case metadata_json res of
                      Inl e \<Rightarrow> None
                    | Inr body \<Rightarrow>
                        (case access_token body of
                           None \<Rightarrow> None
                         | Some t \<Rightarrow> if t = [] then None else Some t))
              else None"
  let ?c = "case runCommandWithTimeout w [''gcloud'', ''auth'', ''print-access-token''] 10000 of
            Inl e \<Rightarrow> None
          | Inr result \<Rightarrow>
              if code result = Some 0 \<and> trim (stdout result) \<noteq> []
              then Some (trim (stdout result)) else None"
  have m_ne: "?m \<noteq> Some []"
    by (simp split: sum.splits option.splits)
  have c_ne: "?c \<noteq> Some []"
    by (simp split: sum.splits)
  note run = resolveGarAuthToken_cases [OF fetchMetadataToken_eq fetchGcloudCliToken_eq, of w]
  show ?thesis
  proof (cases ?m)
    case None
    note mN = this
    show ?thesis
    proof (cases ?c)
      case None
      with mN run show ?thesis by (simp add: truthy_def Let_def)
    next
      case (Some t)
      with c_ne have "t \<noteq> []" by auto
      with Some mN run show ?thesis by (simp add: truthy_def Let_def)
    qed
  next
    case (Some t)
    with m_ne have "t \<noteq> []" by auto
    with Some run show ?thesis by (simp add: truthy_def Let_def)
  qed
qed

section \<open>The sync handler: helper facts\<close>









lemma resolveMarketplaceAuthToken_total:
  "\<exists>t. resolveMarketplaceAuthToken g cfg = Inr t"
  by (simp add: resolveMarketplaceAuthToken_def resolveGarAuthToken_cases
      [OF fetchMetadataToken_eq fetchGcloudCliToken_eq] Let_def split: option.splits)


section \<open>The sync handler: the claim\<close>




end
